theory Spec2Isabelle
  imports
    Complex_Main
    "HOL-Library.Sublist"
    "HOL-Library.Char_ord"
    "HOL-Library.List_Lexorder"
    "HOL-Library.Multiset"
begin

section \<open>Python values\<close>

text \<open>
  The three modules under verification (\<^verbatim>\<open>core/cache/scan_cache.py\<close>,
  \<^verbatim>\<open>core/execution/error_handler.py\<close>, \<^verbatim>\<open>core/execution/parallel_scanner.py\<close>)
  pass tool results around as plain Python dictionaries. A Python value is modelled by
  the datatype below. A dictionary is an association list in insertion order; its keys
  are strings (the only keys the three modules ever use) and a well-formed dictionary
  has distinct keys. A string is a list of 8-bit characters, each read as one code
  point; a float is a real number.
\<close>

datatype pyval =
    PNone
  | PBool bool
  | PInt int
  | PFloat real
  | PStr string
  | PList "pyval list"
  | PDict "(string \<times> pyval) list"

type_synonym pydict = "(string \<times> pyval) list"

text \<open>Truth value of a Python object, as tested by \<^verbatim>\<open>if x:\<close> and \<^verbatim>\<open>x and y\<close>.\<close>

fun truthy :: "pyval \<Rightarrow> bool" where
  "truthy PNone = False"
| "truthy (PBool b) = b"
| "truthy (PInt i) = (i \<noteq> 0)"
| "truthy (PFloat r) = (r \<noteq> 0)"
| "truthy (PStr s) = (s \<noteq> [])"
| "truthy (PList xs) = (xs \<noteq> [])"
| "truthy (PDict kvs) = (kvs \<noteq> [])"

text \<open>\<^verbatim>\<open>d.get(k, default)\<close> on the items of a dictionary.\<close>

definition dict_get :: "pydict \<Rightarrow> string \<Rightarrow> pyval \<Rightarrow> pyval" where
  "dict_get d k dflt = (case map_of d k of None \<Rightarrow> dflt | Some v \<Rightarrow> v)"

text \<open>
  \<^verbatim>\<open>d[k] = v\<close>, also the effect of one \<^verbatim>\<open>'k': v\<close> item after \<^verbatim>\<open>**d\<close> in a dictionary
  display: an existing key keeps its position and takes the new value, a new key goes
  to the end.
\<close>

fun dict_set :: "pydict \<Rightarrow> string \<Rightarrow> pyval \<Rightarrow> pydict" where
  "dict_set [] k v = [(k, v)]"
| "dict_set ((k', v') # d) k v = (if k' = k then (k, v) # d else (k', v') # dict_set d k v)"

text \<open>
  \<^verbatim>\<open>result.get('success')\<close> guarded by \<^verbatim>\<open>isinstance(result, dict)\<close>: the test both the
  cache wrapper and the resilient executor use to tell success from failure.
\<close>

fun reports_success :: "pyval \<Rightarrow> bool" where
  "reports_success (PDict d) = truthy (dict_get d ''success'' PNone)"
| "reports_success _ = False"

section \<open>Strings\<close>

text \<open>
  \<^verbatim>\<open>str.lower()\<close> on code points below 256: the ASCII capitals and the Latin-1
  capitals (all of 192..222 except the multiplication sign 215) move up by 32.
\<close>

definition lower_char :: "char \<Rightarrow> char" where
  "lower_char c =
     (let n = (of_char c :: nat)
      in if (65 \<le> n \<and> n \<le> 90) \<or> (192 \<le> n \<and> n \<le> 222 \<and> n \<noteq> 215)
         then char_of (n + 32) else c)"

definition lower :: "string \<Rightarrow> string" where
  "lower s = map lower_char s"

text \<open>\<^verbatim>\<open>p in t\<close> for two strings: \<open>p\<close> occurs in \<open>t\<close> as a contiguous substring.\<close>

fun str_in :: "string \<Rightarrow> string \<Rightarrow> bool" where
  "str_in p [] = (p = [])"
| "str_in p (c # cs) = (prefix p (c # cs) \<or> str_in p cs)"

text \<open>\<^verbatim>\<open>sep.join(xs)\<close>.\<close>

fun join :: "string \<Rightarrow> string list \<Rightarrow> string" where
  "join sep [] = []"
| "join sep [x] = x"
| "join sep (x # y # ys) = x @ sep @ join sep (y # ys)"

section \<open>Library functions taken as parameters\<close>

text \<open>
  Functions of the Python standard library whose exact output no property below
  depends on are parameters of the model: the MD5 hex digest of the UTF-8 encoding of a
  string (\<^verbatim>\<open>hashlib.md5(s.encode()).hexdigest()\<close>), the \<^verbatim>\<open>repr\<close> of a float, the ISO
  format of the local time at a given instant (\<^verbatim>\<open>datetime.now().isoformat()\<close>), and
  \<^verbatim>\<open>str(x)\<close> for a value that is not a string.
\<close>

record pylib =
  md5_hexdigest :: "string \<Rightarrow> string"
  float_repr :: "real \<Rightarrow> string"
  isoformat :: "real \<Rightarrow> string"
  str_of_nonstring :: "pyval \<Rightarrow> string"

text \<open>\<^verbatim>\<open>f"{x}"\<close>: a string is inserted as it is, any other value through \<^verbatim>\<open>str\<close>.\<close>

fun format_value :: "pylib \<Rightarrow> pyval \<Rightarrow> string" where
  "format_value L (PStr s) = s"
| "format_value L v = str_of_nonstring L v"

section \<open>json.dumps with sort\_keys=True\<close>

fun dec_nat :: "nat \<Rightarrow> string" where
  "dec_nat n = (if n < 10 then [char_of (48 + n)] else dec_nat (n div 10) @ [char_of (48 + n mod 10)])"

definition dec_int :: "int \<Rightarrow> string" where
  "dec_int i = (if i < 0 then ''-'' @ dec_nat (nat (- i)) else dec_nat (nat i))"

definition hex_digit :: "nat \<Rightarrow> char" where
  "hex_digit n = (if n < 10 then char_of (48 + n) else char_of (87 + n))"

text \<open>
  The encoder's string escape with \<^verbatim>\<open>ensure_ascii=True\<close>: the quote, the backslash and
  five control characters have short escapes, the printable ASCII characters stand for
  themselves, every other code point becomes \<^verbatim>\<open>\u00XX\<close>.
\<close>

definition json_escape_char :: "char \<Rightarrow> string" where
  "json_escape_char c =
     (let n = (of_char c :: nat)
      in if n = 34 then [CHR 0x5C, CHR 0x22]
         else if n = 92 then [CHR 0x5C, CHR 0x5C]
         else if n = 10 then [CHR 0x5C, CHR ''n'']
         else if n = 13 then [CHR 0x5C, CHR ''r'']
         else if n = 9 then [CHR 0x5C, CHR ''t'']
         else if n = 8 then [CHR 0x5C, CHR ''b'']
         else if n = 12 then [CHR 0x5C, CHR ''f'']
         else if 32 \<le> n \<and> n \<le> 126 then [c]
         else [CHR 0x5C, CHR ''u'', CHR ''0'', CHR ''0'', hex_digit (n div 16), hex_digit (n mod 16)])"

definition json_string :: "string \<Rightarrow> string" where
  "json_string s = [CHR 0x22] @ concat (map json_escape_char s) @ [CHR 0x22]"

text \<open>
  \<^verbatim>\<open>json.dumps(v, sort_keys=True)\<close> with the default separators. The items of every
  dictionary, at every depth, are written in the order of their keys (Python sorts the
  item pairs; the keys of a dictionary are distinct, so the key decides).
\<close>

function (sequential) dumps_sorted :: "pylib \<Rightarrow> pyval \<Rightarrow> string" where
  "dumps_sorted L PNone = ''null''"
| "dumps_sorted L (PBool b) = (if b then ''true'' else ''false'')"
| "dumps_sorted L (PInt i) = dec_int i"
| "dumps_sorted L (PFloat r) = float_repr L r"
| "dumps_sorted L (PStr s) = json_string s"
| "dumps_sorted L (PList xs) = ''['' @ join '', '' (map (dumps_sorted L) xs) @ '']''"
| "dumps_sorted L (PDict kvs) =
     ''{'' @ join '', '' (map (\<lambda>kv. json_string (fst kv) @ '': '' @ dumps_sorted L (snd kv))
                              (sort_key fst kvs)) @ ''}''"
  by pat_completeness auto
termination
proof (relation "measure (\<lambda>(L, v). size v)", goal_cases)
  case 1
  show ?case by simp
next
  case (2 L xs x)
  then have "size x \<le> size_list size xs" by (simp add: size_list_estimation')
  then show ?case by simp
next
  case (3 L kvs kv)
  then have "kv \<in> set kvs" by simp
  then have "size_prod (\<lambda>_. 0) size kv \<le> size_list (size_prod (\<lambda>_. 0) size) kvs"
    by (simp add: size_list_estimation')
  then show ?case by (cases kv) simp
qed

section \<open>The scan result cache (scan\_cache.py)\<close>

text \<open>
  The model covers a cache that runs on its process-local backend: an instance built
  with \<^verbatim>\<open>use_redis=False\<close>, without a client, or whose client failed the liveness probe
  in the constructor. For such an instance \<^verbatim>\<open>self.use_redis and self.redis_client\<close> is
  false in every method, and the state of the cache is the dictionary
  \<^verbatim>\<open>memory_cache\<close>. The Redis client is an external collaborator and is not modelled.
  A call is taken to be instantaneous: the clock readings inside one call of \<^verbatim>\<open>get\<close> or
  \<^verbatim>\<open>set\<close> all return the instant \<open>now\<close>.
\<close>

record CacheEntry =
  ce_key :: string
  ce_data :: pydict
  ce_created_at :: real
  ce_expires_at :: real
  ce_tool_name :: string
  ce_target :: string

type_synonym memory_cache = "string \<rightharpoonup> CacheEntry"

definition DEFAULT_TTL :: "(string \<times> int) list" where
  "DEFAULT_TTL =
     [(''quick_scan'', 3600), (''normal_scan'', 7200), (''deep_scan'', 14400),
      (''vulnerability_scan'', 21600), (''default'', 3600)]"

definition TOOL_TTL :: "(string \<times> int) list" where
  "TOOL_TTL =
     [(''httpx'', 1800), (''nmap'', 7200), (''nuclei'', 21600), (''sqlmap'', 14400),
      (''subfinder'', 86400), (''amass'', 86400), (''nikto'', 14400)]"

text \<open>\<^verbatim>\<open>tbl.get(k, default)\<close> on a table of integers.\<close>

definition ttl_get :: "(string \<times> int) list \<Rightarrow> string \<Rightarrow> int \<Rightarrow> int" where
  "ttl_get tbl k dflt = (case map_of tbl k of None \<Rightarrow> dflt | Some t \<Rightarrow> t)"

text \<open>
  The \<^verbatim>\<open>if ttl is None\<close> block of \<^verbatim>\<open>set\<close>: an explicit TTL wins, then the tool's own
  TTL, then the TTL of the scan type, then the entry \<^verbatim>\<open>'default'\<close>. The subscript
  \<^verbatim>\<open>DEFAULT_TTL['default']\<close> cannot fail, the table has the key; its value is 3600.
\<close>

definition resolve_ttl :: "string \<Rightarrow> int option \<Rightarrow> string \<Rightarrow> int" where
  "resolve_ttl tool_name ttl scan_type =
     (case ttl of
        Some t \<Rightarrow> t
      | None \<Rightarrow> ttl_get TOOL_TTL tool_name (ttl_get DEFAULT_TTL scan_type (ttl_get DEFAULT_TTL ''default'' 3600)))"

text \<open>\<^verbatim>\<open>params or {}\<close>.\<close>

fun params_or_empty :: "pydict option \<Rightarrow> pydict" where
  "params_or_empty None = []"
| "params_or_empty (Some ps) = ps"

definition generate_cache_key :: "pylib \<Rightarrow> string \<Rightarrow> string \<Rightarrow> pydict \<Rightarrow> string" where
  "generate_cache_key L tool_name target params =
     (let sorted_params = dumps_sorted L (PDict params);
          data = tool_name @ '':'' @ target @ '':'' @ sorted_params;
          hash_key = md5_hexdigest L data
      in ''hexstrike:scan:'' @ tool_name @ '':'' @ hash_key)"

text \<open>
  \<^verbatim>\<open>ScanResultCache.get\<close>: the answer and the cache after the call. A live entry is
  returned through its \<^verbatim>\<open>data\<close> field; an entry whose \<^verbatim>\<open>expires_at\<close> is not in the
  future is deleted and the answer is \<^verbatim>\<open>None\<close>.
\<close>

definition ScanResultCache_get ::
  "pylib \<Rightarrow> real \<Rightarrow> string \<Rightarrow> string \<Rightarrow> pydict option \<Rightarrow> memory_cache
     \<Rightarrow> pydict option \<times> memory_cache" where
  "ScanResultCache_get L now tool_name target params cache =
     (let key = generate_cache_key L tool_name target (params_or_empty params)
      in case cache key of
           None \<Rightarrow> (None, cache)
         | Some entry \<Rightarrow>
             if now < ce_expires_at entry then (Some (ce_data entry), cache)
             else (None, cache(key := None)))"

text \<open>
  \<^verbatim>\<open>ScanResultCache.set\<close>: what is stored is not the result itself but a record
  \<^verbatim>\<open>cached_data\<close> that wraps it with the tool, the target, the time of caching and the
  TTL.
\<close>

definition ScanResultCache_set ::
  "pylib \<Rightarrow> real \<Rightarrow> string \<Rightarrow> string \<Rightarrow> pydict option \<Rightarrow> pyval \<Rightarrow> int option \<Rightarrow> string
     \<Rightarrow> memory_cache \<Rightarrow> bool \<times> memory_cache" where
  "ScanResultCache_set L now tool_name target params result ttl scan_type cache =
     (let key = generate_cache_key L tool_name target (params_or_empty params);
          ttl' = resolve_ttl tool_name ttl scan_type;
          cached_data =
            [(''result'', result),
             (''tool_name'', PStr tool_name),
             (''target'', PStr target),
             (''cached_at'', PStr (isoformat L now)),
             (''ttl'', PInt ttl')];
          entry = \<lparr> ce_key = key, ce_data = cached_data, ce_created_at = now,
                    ce_expires_at = now + real_of_int ttl',
                    ce_tool_name = tool_name, ce_target = target \<rparr>
      in (True, cache(key \<mapsto> entry)))"

section \<open>Executors and their environment\<close>

text \<open>
  A tool executor is an arbitrary callable \<^verbatim>\<open>f(target, params)\<close>: it may return any
  value, raise an exception, and change the world (run a process, count its own calls).
  It is a function from the world before the call to an outcome and the world after
  it; outcome \<open>Inl m\<close> is an exception (an instance of \<^verbatim>\<open>Exception\<close>) whose \<^verbatim>\<open>str(e)\<close> is
  \<open>m\<close>, outcome \<open>Inr v\<close> is the returned value. The world is a type parameter. What the
  modules read from or do to the world besides calling executors is a parameter too:
  the clock \<^verbatim>\<open>time.time()\<close>; the delay \<^verbatim>\<open>time.sleep(n)\<close> for an \<open>n\<close> that is not negative,
  which returns (\<open>None\<close>) or raises (\<open>Some m\<close>, as for a delay beyond the range of the
  platform); and \<^verbatim>\<open>shutil.which(b) is not None\<close>, which is taken not to change during a
  run.
\<close>

type_synonym 'w executor = "string \<Rightarrow> pydict \<Rightarrow> 'w \<Rightarrow> (string + pyval) \<times> 'w"

record 'w env =
  time_now :: "'w \<Rightarrow> real"
  time_sleep :: "int \<Rightarrow> 'w \<Rightarrow> string option \<times> 'w"
  which :: "string \<Rightarrow> bool"

text \<open>
  \<^verbatim>\<open>time.sleep(n)\<close>: a negative \<open>n\<close> raises \<^verbatim>\<open>ValueError\<close> at once, with the message below.
\<close>

definition py_sleep :: "'w env \<Rightarrow> int \<Rightarrow> 'w \<Rightarrow> string option \<times> 'w" where
  "py_sleep E n w =
     (if n < 0 then (Some ''sleep length must be non-negative'', w) else time_sleep E n w)"

text \<open>\<^verbatim>\<open>type(x).__name__\<close>, for the message of the error below.\<close>

fun type_name :: "pyval \<Rightarrow> string" where
  "type_name PNone = ''NoneType''"
| "type_name (PBool b) = ''bool''"
| "type_name (PInt i) = ''int''"
| "type_name (PFloat r) = ''float''"
| "type_name (PStr s) = ''str''"
| "type_name (PList xs) = ''list''"
| "type_name (PDict d) = ''dict''"

text \<open>
  \<^verbatim>\<open>**x\<close> inside a dictionary display: the items of a dictionary, a \<^verbatim>\<open>TypeError\<close> for
  every other value.
\<close>

fun unpack_mapping :: "pyval \<Rightarrow> string + pydict" where
  "unpack_mapping (PDict d) = Inr d"
| "unpack_mapping v = Inl ([CHR 0x27] @ type_name v @ [CHR 0x27] @ '' object is not a mapping'')"

section \<open>Cache-aware execution (scan\_cache.py)\<close>

text \<open>
  The value returned on a cache hit:
  \<^verbatim>\<open>{**cached.get('result', {}), 'from_cache': True, 'cached_at': cached.get('cached_at')}\<close>.
\<close>

definition cache_hit_result :: "pydict \<Rightarrow> string + pyval" where
  "cache_hit_result cached =
     (case unpack_mapping (dict_get cached ''result'' (PDict [])) of
        Inl e \<Rightarrow> Inl e
      | Inr r \<Rightarrow>
          Inr (PDict (dict_set (dict_set r ''from_cache'' (PBool True))
                               ''cached_at'' (dict_get cached ''cached_at'' PNone))))"

text \<open>
  The second half of \<^verbatim>\<open>execute_with_cache\<close>, from \<^verbatim>\<open>result = executor_func(target, params)\<close>
  on. There is no \<^verbatim>\<open>try\<close> in \<^verbatim>\<open>execute_with_cache\<close>: an exception of the executor, and
  the \<^verbatim>\<open>TypeError\<close> of \<^verbatim>\<open>{**result, ...}\<close> on a result that is not a dictionary, leave the
  function. The executor is taken not to reach the cache by itself.
\<close>

definition execute_and_store ::
  "pylib \<Rightarrow> 'w env \<Rightarrow> string \<Rightarrow> string \<Rightarrow> pydict \<Rightarrow> 'w executor \<Rightarrow> string
     \<Rightarrow> memory_cache \<times> 'w \<Rightarrow> (string + pyval) \<times> (memory_cache \<times> 'w)" where
  "execute_and_store L E tool_name target params executor_func scan_type s =
     (case executor_func target params (snd s) of
        (Inl e, w1) \<Rightarrow> (Inl e, (fst s, w1))
      | (Inr result, w1) \<Rightarrow>
          (let cache2 =
                 (if reports_success result
                  then snd (ScanResultCache_set L (time_now E w1) tool_name target (Some params)
                              result None scan_type (fst s))
                  else fst s)
           in (case unpack_mapping result of
                 Inl e \<Rightarrow> Inl e
               | Inr r \<Rightarrow> Inr (PDict (dict_set r ''from_cache'' (PBool False))),
               (cache2, w1))))"

text \<open>\<^verbatim>\<open>CacheAwareExecutor.execute_with_cache\<close>, on the pair of the cache and the world.\<close>

definition execute_with_cache ::
  "pylib \<Rightarrow> 'w env \<Rightarrow> string \<Rightarrow> string \<Rightarrow> pydict \<Rightarrow> 'w executor \<Rightarrow> bool \<Rightarrow> string
     \<Rightarrow> memory_cache \<times> 'w \<Rightarrow> (string + pyval) \<times> (memory_cache \<times> 'w)" where
  "execute_with_cache L E tool_name target params executor_func force_refresh scan_type s =
     (if \<not> force_refresh then
        (case ScanResultCache_get L (time_now E (snd s)) tool_name target (Some params) (fst s) of
           (Some cached, cache1) \<Rightarrow>
             if cached \<noteq> [] then (cache_hit_result cached, (cache1, snd s))
             else execute_and_store L E tool_name target params executor_func scan_type
                    (cache1, snd s)
         | (None, cache1) \<Rightarrow>
             execute_and_store L E tool_name target params executor_func scan_type
               (cache1, snd s))
      else execute_and_store L E tool_name target params executor_func scan_type s)"

section \<open>Error taxonomy and classification (error\_handler.py)\<close>

datatype ErrorType =
    TOOL_NOT_FOUND
  | TIMEOUT
  | PERMISSION_DENIED
  | NETWORK_ERROR
  | INVALID_TARGET
  | WAF_DETECTED
  | RATE_LIMITED
  | UNKNOWN

text \<open>\<^verbatim>\<open>ErrorType.value\<close>.\<close>

fun error_type_value :: "ErrorType \<Rightarrow> string" where
  "error_type_value TOOL_NOT_FOUND = ''tool_not_found''"
| "error_type_value TIMEOUT = ''timeout''"
| "error_type_value PERMISSION_DENIED = ''permission_denied''"
| "error_type_value NETWORK_ERROR = ''network_error''"
| "error_type_value INVALID_TARGET = ''invalid_target''"
| "error_type_value WAF_DETECTED = ''waf_detected''"
| "error_type_value RATE_LIMITED = ''rate_limited''"
| "error_type_value UNKNOWN = ''unknown''"

text \<open>
  \<^verbatim>\<open>ErrorDiagnostics.ERROR_PATTERNS\<close>: a dictionary literal, iterated in insertion
  order, so it is kept as a list of groups.
\<close>

definition ERROR_PATTERNS :: "(ErrorType \<times> string list) list" where
  "ERROR_PATTERNS =
    [(TOOL_NOT_FOUND, [''not found'', ''command not found'', ''No such file or directory'']),
     (TIMEOUT, [''timeout'', ''timed out'', ''Time limit exceeded'']),
     (PERMISSION_DENIED, [''permission denied'', ''access denied'', ''Operation not permitted'']),
     (NETWORK_ERROR, [''connection refused'', ''network unreachable'', ''no route to host'',
                      ''Name or service not known'']),
     (WAF_DETECTED, [''WAF'', ''Web Application Firewall'', ''blocked by security'', ''rate limit'']),
     (RATE_LIMITED, [''rate limit'', ''too many requests'', ''429''])]"

text \<open>The inner loop of \<^verbatim>\<open>diagnose_error\<close>: does some pattern of the group occur?\<close>

fun group_matches :: "string list \<Rightarrow> string \<Rightarrow> bool" where
  "group_matches [] combined_text = False"
| "group_matches (pattern # patterns) combined_text =
     (if str_in (lower pattern) combined_text then True
      else group_matches patterns combined_text)"

text \<open>The outer loop: the first group with a match returns its category.\<close>

fun scan_groups :: "(ErrorType \<times> string list) list \<Rightarrow> string \<Rightarrow> ErrorType" where
  "scan_groups [] combined_text = UNKNOWN"
| "scan_groups ((error_type, patterns) # groups) combined_text =
     (if group_matches patterns combined_text then error_type
      else scan_groups groups combined_text)"

definition diagnose_error :: "string \<Rightarrow> string \<Rightarrow> pyval \<Rightarrow> ErrorType" where
  "diagnose_error error_message stderr returncode =
     (let combined_text = lower (error_message @ '' '' @ stderr)
      in scan_groups ERROR_PATTERNS combined_text)"

section \<open>Tool availability (tool\_checker.py)\<close>

definition TOOL_INSTALL_COMMANDS :: "(string \<times> string) list" where
  "TOOL_INSTALL_COMMANDS =
    [(''dalfox'', ''go install github.com/hahwul/dalfox/v2@latest''),
     (''subfinder'', ''go install -v github.com/projectdiscovery/subfinder/v2/cmd/subfinder@latest''),
     (''nuclei'', ''go install -v github.com/projectdiscovery/nuclei/v3/cmd/nuclei@latest''),
     (''httpx'', ''go install -v github.com/projectdiscovery/httpx/cmd/httpx@latest''),
     (''katana'', ''go install github.com/projectdiscovery/katana/cmd/katana@latest''),
     (''gau'', ''go install github.com/lc/gau/v2/cmd/gau@latest''),
     (''waybackurls'', ''go install github.com/tomnomnom/waybackurls@latest''),
     (''amass'', ''go install -v github.com/owasp-amass/amass/v4/...@master''),
     (''ffuf'', ''go install github.com/ffuf/ffuf/v2@latest''),
     (''arjun'', ''pip3 install arjun''),
     (''sqlmap'', ''sudo apt install sqlmap -y''),
     (''wpscan'', ''sudo gem install wpscan''),
     (''nmap'', ''sudo apt install nmap -y''),
     (''nikto'', ''sudo apt install nikto -y''),
     (''gobuster'', ''sudo apt install gobuster -y''),
     (''masscan'', ''sudo apt install masscan -y''),
     (''hydra'', ''sudo apt install hydra -y''),
     (''john'', ''sudo apt install john -y''),
     (''hashcat'', ''sudo apt install hashcat -y''),
     (''metasploit-framework'', ''sudo apt install metasploit-framework -y''),
     (''feroxbuster'', ''sudo apt install feroxbuster -y''),
     (''dirsearch'', ''sudo apt install dirsearch -y''),
     (''whatweb'', ''sudo apt install whatweb -y''),
     (''testssl'', ''sudo apt install testssl.sh -y''),
     (''sslscan'', ''sudo apt install sslscan -y'')]"

definition TOOL_ALIASES :: "(string \<times> string) list" where
  "TOOL_ALIASES = [(''testssl.sh'', ''testssl'')]"

text \<open>\<^verbatim>\<open>tbl.get(k, default)\<close> on a table of strings.\<close>

definition str_get :: "(string \<times> string) list \<Rightarrow> string \<Rightarrow> string \<Rightarrow> string" where
  "str_get tbl k dflt = (case map_of tbl k of None \<Rightarrow> dflt | Some v \<Rightarrow> v)"

text \<open>\<^verbatim>\<open>s.split('/')[-1]\<close>: what follows the last slash.\<close>

definition last_segment :: "string \<Rightarrow> string" where
  "last_segment s = rev (takeWhile (\<lambda>c. c \<noteq> CHR ''/'') (rev s))"

text \<open>
  \<^verbatim>\<open>ToolChecker.is_tool_available\<close>. The \<^verbatim>\<open>lru_cache\<close> around it stores answers; with
  a PATH that does not change it answers as the function does.
\<close>

definition is_tool_available :: "'w env \<Rightarrow> string \<Rightarrow> bool" where
  "is_tool_available E tool_name =
     (let tool_name' = str_get TOOL_ALIASES tool_name tool_name;
          tool_binary = last_segment tool_name'
      in which E tool_binary)"

definition check_tool_or_error :: "'w env \<Rightarrow> string \<Rightarrow> pydict" where
  "check_tool_or_error E tool_name =
     (if is_tool_available E tool_name
      then [(''available'', PBool True), (''tool'', PStr tool_name)]
      else
        (let install_cmd =
               str_get TOOL_INSTALL_COMMANDS tool_name (''# Unknown tool. Try: apt search '' @ tool_name)
         in [(''available'', PBool False),
             (''error'', PStr (''Tool '' @ [CHR 0x27] @ tool_name @ [CHR 0x27] @ '' is not installed or not in PATH'')),
             (''tool'', PStr tool_name),
             (''install_command'', PStr install_cmd),
             (''suggestion'', PStr (''Install using: '' @ install_cmd))]))"

section \<open>Alternatives, suggestions and failure results (error\_handler.py)\<close>

definition ALTERNATIVES :: "(string \<times> string list) list" where
  "ALTERNATIVES =
    [(''httpx'', [''curl'', ''wget'']),
     (''nuclei'', [''nikto'', ''wpscan'']),
     (''nikto'', [''nuclei'', ''wpscan'']),
     (''dalfox'', [''xsser'', ''xsstrike'']),
     (''gobuster'', [''feroxbuster'', ''ffuf'', ''dirsearch'']),
     (''feroxbuster'', [''gobuster'', ''ffuf'', ''dirsearch'']),
     (''ffuf'', [''gobuster'', ''feroxbuster'', ''dirsearch'']),
     (''dirsearch'', [''gobuster'', ''feroxbuster'', ''ffuf'']),
     (''subfinder'', [''amass'', ''assetfinder'', ''sublist3r'']),
     (''amass'', [''subfinder'', ''assetfinder'']),
     (''nmap'', [''masscan'', ''rustscan'']),
     (''masscan'', [''nmap'', ''rustscan'']),
     (''rustscan'', [''nmap'', ''masscan'']),
     (''sqlmap'', [''sqliv'', ''sqlninja'']),
     (''arjun'', [''paramspider'', ''x8'']),
     (''paramspider'', [''arjun'', ''x8'']),
     (''x8'', [''arjun'', ''paramspider'']),
     (''katana'', [''hakrawler'', ''gospider'']),
     (''hakrawler'', [''katana'', ''gospider''])]"

definition get_alternatives :: "string \<Rightarrow> string list" where
  "get_alternatives tool_name = (case map_of ALTERNATIVES tool_name of None \<Rightarrow> [] | Some alts \<Rightarrow> alts)"

record ErrorContext =
  ec_error_type :: ErrorType
  ec_tool_name :: string
  ec_target :: string
  ec_error_message :: pyval
  ec_timestamp :: real
  ec_retry_count :: int
  ec_suggestions :: "string list"

definition get_suggestions :: "pylib \<Rightarrow> 'w env \<Rightarrow> ErrorType \<Rightarrow> string \<Rightarrow> string list" where
  "get_suggestions L E error_type tool_name =
     (if error_type = TOOL_NOT_FOUND then
        (let check_result = check_tool_or_error E tool_name;
             suggestions1 =
               (if \<not> truthy (dict_get check_result ''available'' PNone)
                then [''Install '' @ tool_name @ '': ''
                        @ format_value L (dict_get check_result ''install_command'' PNone)]
                else []);
             alternatives = get_alternatives tool_name
         in if alternatives \<noteq> []
            then suggestions1 @ [''Try alternative tools: '' @ join '', '' alternatives]
            else suggestions1)
      else if error_type = TIMEOUT then
        [''Increase timeout value'', ''Check network connectivity'', ''Use faster scan options'']
      else if error_type = PERMISSION_DENIED then
        [''Run with sudo: sudo '' @ tool_name, ''Check file permissions'']
      else if error_type = NETWORK_ERROR then
        [''Check network connectivity'', ''Verify target is reachable: ping <target>'',
         ''Check DNS resolution'']
      else if error_type = WAF_DETECTED then
        [''Use WAF bypass techniques'', ''Add delay between requests'', ''Use custom user-agent'',
         ''Consider using tamper scripts'']
      else if error_type = RATE_LIMITED then
        [''Reduce request rate'', ''Add delay between requests'', ''Use proxy rotation'']
      else [])"

text \<open>
  \<^verbatim>\<open>_create_failure_result\<close>. An \<^verbatim>\<open>ErrorContext\<close> object is always true in a condition,
  so the second dictionary is built only for \<^verbatim>\<open>None\<close>.
\<close>

fun create_failure_result :: "string \<Rightarrow> string \<Rightarrow> ErrorContext option \<Rightarrow> pyval" where
  "create_failure_result tool_name target (Some error_context) =
     PDict [(''success'', PBool False),
            (''tool'', PStr tool_name),
            (''target'', PStr target),
            (''error'', ec_error_message error_context),
            (''error_type'', PStr (error_type_value (ec_error_type error_context))),
            (''retry_count'', PInt (ec_retry_count error_context)),
            (''suggestions'', PList (map PStr (ec_suggestions error_context))),
            (''timestamp'', PFloat (ec_timestamp error_context))]"
| "create_failure_result tool_name target None =
     PDict [(''success'', PBool False),
            (''tool'', PStr tool_name),
            (''target'', PStr target),
            (''error'', PStr ''Unknown error''),
            (''suggestions'', PList [PStr ''Review error logs'', PStr ''Check tool installation''])]"

section \<open>The resilient executor (error\_handler.py)\<close>

record ResilientExecutor =
  max_retries :: int
  retry_delay :: int
  enable_fallback :: bool

text \<open>
  The loop of \<^verbatim>\<open>_try_fallback\<close> over the alternatives. An alternative that is not
  installed, or for which \<^verbatim>\<open>tool_executors.get\<close> gives nothing, is passed over; an
  alternative that raises or that does not report success is followed by the next
  one; the first one that reports success ends the loop with its result, to which the
  three keys are added. \<open>None\<close> stands for the end of the loop without a
  \<^verbatim>\<open>return\<close>.
\<close>

fun try_alternatives ::
  "'w env \<Rightarrow> string \<Rightarrow> string \<Rightarrow> pydict \<Rightarrow> (string \<rightharpoonup> 'w executor) \<Rightarrow> string list \<Rightarrow> 'w
     \<Rightarrow> pyval option \<times> 'w" where
  "try_alternatives E original_tool target params tool_executors [] w = (None, w)"
| "try_alternatives E original_tool target params tool_executors (alt_tool # alternatives) w =
     (if \<not> is_tool_available E alt_tool
      then try_alternatives E original_tool target params tool_executors alternatives w
      else
        (case tool_executors alt_tool of
           None \<Rightarrow> try_alternatives E original_tool target params tool_executors alternatives w
         | Some alt_executor \<Rightarrow>
             (case alt_executor target params w of
                (Inl e, w1) \<Rightarrow>
                  try_alternatives E original_tool target params tool_executors alternatives w1
              | (Inr result, w1) \<Rightarrow>
                  (case result of
                     PDict r \<Rightarrow>
                       if truthy (dict_get r ''success'' PNone)
                       then (Some (PDict (dict_set (dict_set (dict_set r
                                     ''used_alternative'' (PBool True))
                                     ''original_tool'' (PStr original_tool))
                                     ''alternative_tool'' (PStr alt_tool))), w1)
                       else try_alternatives E original_tool target params tool_executors
                              alternatives w1
                   | _ \<Rightarrow>
                       try_alternatives E original_tool target params tool_executors
                         alternatives w1))))"

definition try_fallback ::
  "'w env \<Rightarrow> string \<Rightarrow> string \<Rightarrow> pydict \<Rightarrow> (string \<rightharpoonup> 'w executor) \<Rightarrow> ErrorContext \<Rightarrow> 'w
     \<Rightarrow> pyval \<times> 'w" where
  "try_fallback E original_tool target params tool_executors error_context w =
     (let alternatives = get_alternatives original_tool
      in if alternatives = []
         then (create_failure_result original_tool target (Some error_context), w)
         else
           (case try_alternatives E original_tool target params tool_executors alternatives w of
              (Some result, w') \<Rightarrow> (result, w')
            | (None, w') \<Rightarrow>
                (create_failure_result original_tool target (Some error_context), w')))"

text \<open>
  What one failed attempt records. For a returned value that does not report success,
  the message, the stderr text and the return code are read from the result (with
  their defaults, or fixed values when the result is not a dictionary), the error is
  classified and the suggestions are looked up; for an exception the category is
  unknown and the message is \<^verbatim>\<open>str(e)\<close>. The timestamp is the clock after the call.
\<close>

definition error_msg_of :: "pyval \<Rightarrow> pyval" where
  "error_msg_of result =
     (case result of
        PDict d \<Rightarrow> dict_get d ''error'' (PStr ''Unknown error'')
      | _ \<Rightarrow> PStr ''Execution failed'')"

definition stderr_of :: "pyval \<Rightarrow> pyval" where
  "stderr_of result = (case result of PDict d \<Rightarrow> dict_get d ''stderr'' (PStr []) | _ \<Rightarrow> PStr [])"

definition returncode_of :: "pyval \<Rightarrow> pyval" where
  "returncode_of result =
     (case result of PDict d \<Rightarrow> dict_get d ''return_code'' (PInt (- 1)) | _ \<Rightarrow> PInt (- 1))"

definition classify :: "pylib \<Rightarrow> pyval \<Rightarrow> ErrorType" where
  "classify L result =
     diagnose_error (format_value L (error_msg_of result)) (format_value L (stderr_of result))
       (returncode_of result)"

definition failure_context ::
  "pylib \<Rightarrow> 'w env \<Rightarrow> string \<Rightarrow> string \<Rightarrow> int \<Rightarrow> pyval \<Rightarrow> 'w \<Rightarrow> ErrorContext" where
  "failure_context L E tool_name target retry_count result w1 =
     \<lparr> ec_error_type = classify L result, ec_tool_name = tool_name, ec_target = target,
       ec_error_message = error_msg_of result, ec_timestamp = time_now E w1,
       ec_retry_count = retry_count,
       ec_suggestions = get_suggestions L E (classify L result) tool_name \<rparr>"

definition exception_context ::
  "'w env \<Rightarrow> string \<Rightarrow> string \<Rightarrow> int \<Rightarrow> string \<Rightarrow> 'w \<Rightarrow> ErrorContext" where
  "exception_context E tool_name target retry_count e w1 =
     \<lparr> ec_error_type = UNKNOWN, ec_tool_name = tool_name, ec_target = target,
       ec_error_message = PStr e, ec_timestamp = time_now E w1,
       ec_retry_count = retry_count,
       ec_suggestions = [''Check tool installation'', ''Review error logs''] \<rparr>"

text \<open>
  How one pass through the body of the \<^verbatim>\<open>while\<close> loop of \<^verbatim>\<open>execute_with_resilience\<close>
  ends: with \<^verbatim>\<open>return result\<close>; with \<^verbatim>\<open>break\<close>, \<^verbatim>\<open>last_error\<close> being set; at the end of the
  body, with the new \<^verbatim>\<open>retry_count\<close> and \<^verbatim>\<open>last_error\<close>; or with an exception that leaves
  the function. Each carries the world at that point.
\<close>

datatype 'w pass_end =
    Return pyval 'w
  | Break ErrorContext 'w
  | Continue int ErrorContext 'w
  | Escape string 'w

text \<open>
  The \<^verbatim>\<open>except Exception as e\<close> handler of the loop, entered with the current
  \<^verbatim>\<open>retry_count\<close> and \<^verbatim>\<open>str(e)\<close>: it records the error, increments the counter and, when
  the counter is still within the budget, sleeps. That sleep is outside any \<^verbatim>\<open>try\<close>: an
  exception of it leaves \<^verbatim>\<open>execute_with_resilience\<close>.
\<close>

definition except_handler ::
  "'w env \<Rightarrow> ResilientExecutor \<Rightarrow> string \<Rightarrow> string \<Rightarrow> int \<Rightarrow> string \<Rightarrow> 'w \<Rightarrow> 'w pass_end" where
  "except_handler E X tool_name target retry_count e w =
     (let error_context = exception_context E tool_name target retry_count e w
      in if retry_count + 1 \<le> max_retries X
         then (case py_sleep E (retry_delay X) w of
                 (Some e', w') \<Rightarrow> Escape e' w'
               | (None, w') \<Rightarrow> Continue (retry_count + 1) error_context w')
         else Continue (retry_count + 1) error_context w)"

text \<open>
  One pass through the body. The sleep at the end of the \<^verbatim>\<open>try\<close> block runs after the
  counter has been incremented; when it raises, the handler is entered with the
  incremented counter and increments it again.
\<close>

definition attempt ::
  "pylib \<Rightarrow> 'w env \<Rightarrow> ResilientExecutor \<Rightarrow> string \<Rightarrow> string \<Rightarrow> pydict \<Rightarrow> 'w executor
     \<Rightarrow> int \<Rightarrow> 'w \<Rightarrow> 'w pass_end" where
  "attempt L E X tool_name target params executor_func retry_count w =
     (case executor_func target params w of
        (Inl e, w1) \<Rightarrow> except_handler E X tool_name target retry_count e w1
      | (Inr result, w1) \<Rightarrow>
          if reports_success result then Return result w1
          else
            (let error_context = failure_context L E tool_name target retry_count result w1
             in if ec_error_type error_context = TOOL_NOT_FOUND
                   \<or> ec_error_type error_context = INVALID_TARGET
                then Break error_context w1
                else if retry_count + 1 \<le> max_retries X
                then (case py_sleep E (retry_delay X) w1 of
                        (Some e, w2) \<Rightarrow> except_handler E X tool_name target (retry_count + 1) e w2
                      | (None, w2) \<Rightarrow> Continue (retry_count + 1) error_context w2)
                else Continue (retry_count + 1) error_context w1))"

text \<open>
  How the loop as a whole ends: with the \<^verbatim>\<open>return result\<close> inside it, by \<^verbatim>\<open>break\<close> or by
  its condition with the \<^verbatim>\<open>last_error\<close> of that moment, or with an exception.
\<close>

datatype loop_end =
    Returned pyval
  | Left "ErrorContext option"
  | Raised string

text \<open>
  The \<^verbatim>\<open>while retry_count <= self.max_retries\<close> loop, from a given \<^verbatim>\<open>retry_count\<close> and
  \<^verbatim>\<open>last_error\<close>.
\<close>

function primary_attempts ::
  "pylib \<Rightarrow> 'w env \<Rightarrow> ResilientExecutor \<Rightarrow> string \<Rightarrow> string \<Rightarrow> pydict \<Rightarrow> 'w executor
     \<Rightarrow> int \<Rightarrow> ErrorContext option \<Rightarrow> 'w \<Rightarrow> loop_end \<times> 'w" where
  "primary_attempts L E X tool_name target params executor_func retry_count last_error w =
     (if retry_count \<le> max_retries X then
        (case attempt L E X tool_name target params executor_func retry_count w of
           Return result w' \<Rightarrow> (Returned result, w')
         | Break error_context w' \<Rightarrow> (Left (Some error_context), w')
         | Continue retry_count' error_context w' \<Rightarrow>
             primary_attempts L E X tool_name target params executor_func retry_count'
               (Some error_context) w'
         | Escape e w' \<Rightarrow> (Raised e, w'))
      else (Left last_error, w))"
  by pat_completeness auto
termination
  by (relation "measure (\<lambda>(L, E, X, tool_name, target, params, executor_func, retry_count, last_error, w).
                   nat (max_retries X + 1 - retry_count))")
     (auto simp: attempt_def except_handler_def Let_def
           split: prod.splits sum.splits if_splits option.splits)

declare primary_attempts.simps [simp del]

text \<open>
  \<^verbatim>\<open>execute_with_resilience\<close>: \<open>Inr\<close> is the returned dictionary, \<open>Inl\<close> an exception that
  leaves the function.
\<close>

definition execute_with_resilience ::
  "pylib \<Rightarrow> 'w env \<Rightarrow> ResilientExecutor \<Rightarrow> string \<Rightarrow> string \<Rightarrow> pydict \<Rightarrow> 'w executor
     \<Rightarrow> (string \<rightharpoonup> 'w executor) \<Rightarrow> 'w \<Rightarrow> (string + pyval) \<times> 'w" where
  "execute_with_resilience L E X tool_name target params executor_func tool_executors w =
     (case primary_attempts L E X tool_name target params executor_func 0 None w of
        (Returned result, w') \<Rightarrow> (Inr result, w')
      | (Raised e, w') \<Rightarrow> (Inl e, w')
      | (Left last_error, w') \<Rightarrow>
          (case last_error of
             Some error_context \<Rightarrow>
               if enable_fallback X
               then (case try_fallback E tool_name target params tool_executors error_context w' of
                       (result, w'') \<Rightarrow> (Inr result, w''))
               else (Inr (create_failure_result tool_name target last_error), w')
           | None \<Rightarrow> (Inr (create_failure_result tool_name target last_error), w')))"

section \<open>The task scheduler (parallel\_scanner.py)\<close>

record ScanTask =
  st_tool_name :: string
  st_target :: string
  st_params :: pydict
  st_timeout :: int
  st_priority :: int

text \<open>
  Python does not check the declared field types: \<^verbatim>\<open>success\<close> and \<^verbatim>\<open>timed_out\<close> hold
  whatever \<^verbatim>\<open>result.get\<close> returned.
\<close>

record ScanResult =
  sr_tool_name :: string
  sr_target :: string
  sr_success :: pyval
  sr_result :: pyval
  sr_execution_time :: real
  sr_error :: "string option"
  sr_timed_out :: pyval

record ParallelScanner =
  max_workers :: int

text \<open>
  Inside the pool the executors run in worker threads. What one invocation returns or
  raises, and how long it runs, is given by the executor: a function from the target
  and the parameters to the outcome and the running time in seconds. Interleavings of
  the executors' side effects are not modelled.
\<close>

type_synonym task_executor = "string \<Rightarrow> pydict \<Rightarrow> (string + pyval) \<times> real"

text \<open>
  \<^verbatim>\<open>execute_single_task\<close>: the measured \<^verbatim>\<open>execution_time\<close> is the running time of the
  executor; every exception of the executor is caught and becomes a failed result.
\<close>

definition execute_single_task :: "ScanTask \<Rightarrow> task_executor \<Rightarrow> ScanResult" where
  "execute_single_task task executor_func =
     (case executor_func (st_target task) (st_params task) of
        (Inr result, execution_time) \<Rightarrow>
          \<lparr> sr_tool_name = st_tool_name task,
            sr_target = st_target task,
            sr_success = (case result of PDict r \<Rightarrow> dict_get r ''success'' (PBool False)
                                       | _ \<Rightarrow> PBool False),
            sr_result = result,
            sr_execution_time = execution_time,
            sr_error = None,
            sr_timed_out = (case result of PDict r \<Rightarrow> dict_get r ''timed_out'' (PBool False)
                                         | _ \<Rightarrow> PBool False) \<rparr>
      | (Inl e, execution_time) \<Rightarrow>
          \<lparr> sr_tool_name = st_tool_name task,
            sr_target = st_target task,
            sr_success = PBool False,
            sr_result = PDict [],
            sr_execution_time = execution_time,
            sr_error = Some e,
            sr_timed_out = PBool False \<rparr>)"

text \<open>
  A future of \<^verbatim>\<open>concurrent.futures\<close>. \<open>Pending d out\<close> is a call that still needs \<open>d\<close>
  seconds and will then end with \<open>out\<close>; \<open>Finished out\<close> is a call that has ended. An
  outcome \<open>Inl e\<close> is an exception that left the submitted function, \<open>Inr r\<close> its return
  value.
\<close>

datatype future =
    Pending real "string + ScanResult"
  | Finished "string + ScanResult"

text \<open>
  What \<^verbatim>\<open>future.result(timeout=n)\<close> does: it returns the value, re-raises the
  exception of the call, or raises \<^verbatim>\<open>TimeoutError\<close> when the call has not ended within
  \<open>n\<close> seconds. On a finished future it answers at once.
\<close>

datatype wait_outcome =
    Got ScanResult
  | FutureTimeoutError
  | OtherException string

fun settle :: "string + ScanResult \<Rightarrow> wait_outcome" where
  "settle (Inr r) = Got r"
| "settle (Inl e) = OtherException e"

fun future_result :: "future \<Rightarrow> int \<Rightarrow> wait_outcome" where
  "future_result (Finished out) timeout = settle out"
| "future_result (Pending d out) timeout =
     (if d \<le> real_of_int timeout then settle out else FutureTimeoutError)"

text \<open>
  \<^verbatim>\<open>executor.submit(self.execute_single_task, task, executor_func)\<close>: the new future
  runs \<^verbatim>\<open>execute_single_task\<close>, which catches every exception of the executor, and needs
  the running time of the executor.
\<close>

definition submit :: "ScanTask \<Rightarrow> task_executor \<Rightarrow> future" where
  "submit task executor_func =
     Pending (snd (executor_func (st_target task) (st_params task)))
             (Inr (execute_single_task task executor_func))"

text \<open>The three results the scheduler builds by itself.\<close>

definition no_executor_result :: "ScanTask \<Rightarrow> ScanResult" where
  "no_executor_result task =
     \<lparr> sr_tool_name = st_tool_name task, sr_target = st_target task,
       sr_success = PBool False, sr_result = PDict [], sr_execution_time = 0,
       sr_error = Some (''No executor found for '' @ st_tool_name task),
       sr_timed_out = PBool False \<rparr>"

definition timeout_result :: "ScanTask \<Rightarrow> ScanResult" where
  "timeout_result task =
     \<lparr> sr_tool_name = st_tool_name task, sr_target = st_target task,
       sr_success = PBool False, sr_result = PDict [],
       sr_execution_time = real_of_int (st_timeout task),
       sr_error = Some (''Timeout after '' @ dec_int (st_timeout task) @ ''s''),
       sr_timed_out = PBool True \<rparr>"

definition exception_result :: "ScanTask \<Rightarrow> string \<Rightarrow> ScanResult" where
  "exception_result task e =
     \<lparr> sr_tool_name = st_tool_name task, sr_target = st_target task,
       sr_success = PBool False, sr_result = PDict [], sr_execution_time = 0,
       sr_error = Some e, sr_timed_out = PBool False \<rparr>"

text \<open>
  The submission loop of \<^verbatim>\<open>execute_parallel\<close>: a task without an executor gets its
  result at once and no future; every other task is submitted. The state is the
  dictionary \<^verbatim>\<open>results\<close> and the futures in the order of submission, each with its
  task (\<^verbatim>\<open>future_to_task\<close>).
\<close>

fun submit_all ::
  "(string \<rightharpoonup> task_executor) \<Rightarrow> ScanTask list
     \<Rightarrow> (string \<rightharpoonup> ScanResult) \<times> (ScanTask \<times> future) list
     \<Rightarrow> (string \<rightharpoonup> ScanResult) \<times> (ScanTask \<times> future) list" where
  "submit_all tool_executors [] s = s"
| "submit_all tool_executors (task # tasks) (results, futures) =
     (case tool_executors (st_tool_name task) of
        None \<Rightarrow>
          submit_all tool_executors tasks
            (results(st_tool_name task \<mapsto> no_executor_result task), futures)
      | Some executor_func \<Rightarrow>
          submit_all tool_executors tasks
            (results, futures @ [(task, submit task executor_func)]))"

text \<open>
  When the futures finish. The pool has \<^verbatim>\<open>max_workers\<close> workers, all free at time 0; the
  submitted calls wait in a queue and each goes, in the order of submission, to the
  worker that is free first. \<open>finish_times free ds\<close> are the instants at which calls of
  running times \<open>ds\<close> end on workers that are free from the instants \<open>free\<close> on.
\<close>

fun min_index :: "real list \<Rightarrow> nat" where
  "min_index [] = 0"
| "min_index (x # xs) = (if \<forall>y \<in> set xs. x \<le> y then 0 else Suc (min_index xs))"

fun finish_times :: "real list \<Rightarrow> real list \<Rightarrow> real list" where
  "finish_times free [] = []"
| "finish_times free (d # ds) =
     (let i = min_index free; t = free ! i + d
      in t # finish_times (free[i := t]) ds)"

fun running_time :: "future \<Rightarrow> real" where
  "running_time (Pending d out) = d"
| "running_time (Finished out) = 0"

text \<open>
  The order in which \<^verbatim>\<open>as_completed\<close> hands the futures over: by the instant at which
  they finish; futures that finish at the same instant are taken in the order of
  submission. The result is a list of positions in the list of submitted futures.
\<close>

definition completion_order :: "int \<Rightarrow> (ScanTask \<times> future) list \<Rightarrow> nat list" where
  "completion_order width futures =
     (let finished = finish_times (replicate (nat width) 0) (map (\<lambda>tf. running_time (snd tf)) futures)
      in sort_key (\<lambda>i. finished ! i) [0..<length futures])"

text \<open>
  \<^verbatim>\<open>as_completed(future_to_task, timeout=None)\<close> waits without limit and hands over each
  future when it has finished, in the given order (a position beyond the end of the
  list stands for no future and is passed over).
\<close>

fun finish :: "future \<Rightarrow> future" where
  "finish (Pending d out) = Finished out"
| "finish (Finished out) = Finished out"

definition as_completed :: "(ScanTask \<times> future) list \<Rightarrow> nat list \<Rightarrow> (ScanTask \<times> future) list" where
  "as_completed futures order =
     map (\<lambda>i. (fst (futures ! i), finish (snd (futures ! i))))
         (filter (\<lambda>i. i < length futures) order)"

text \<open>
  The progress callback is an arbitrary callable with a state of its own. A call
  returns, raises an exception that the handler \<^verbatim>\<open>except Exception\<close> catches (with its
  \<^verbatim>\<open>str(e)\<close>), or raises an instance of \<^verbatim>\<open>concurrent.futures.TimeoutError\<close> (from Python
  3.11 on the built-in \<^verbatim>\<open>TimeoutError\<close>), which the handler before it catches.
\<close>

datatype callback_end =
    CallbackReturned
  | CallbackRaised string
  | CallbackTimeoutError

type_synonym 'c progress_callback = "int \<Rightarrow> int \<Rightarrow> string \<Rightarrow> 'c \<Rightarrow> callback_end \<times> 'c"

text \<open>
  The collecting loop of \<^verbatim>\<open>execute_parallel\<close> over the futures it is handed. The state
  is \<^verbatim>\<open>results\<close>, \<^verbatim>\<open>completed_tasks\<close>, the calls of the progress callback made so far (each
  with its three arguments) and the state of the callback. The callback is called
  inside the \<^verbatim>\<open>try\<close>, after the result has been stored and the counter incremented: when
  it raises, the handler that catches it stores a failure in place of the result and
  increments the counter once more.
\<close>

fun collect ::
  "'c progress_callback option \<Rightarrow> int \<Rightarrow> (ScanTask \<times> future) list
     \<Rightarrow> (string \<rightharpoonup> ScanResult) \<times> int \<times> (int \<times> int \<times> string) list \<times> 'c
     \<Rightarrow> (string \<rightharpoonup> ScanResult) \<times> int \<times> (int \<times> int \<times> string) list \<times> 'c" where
  "collect progress_callback total_tasks [] s = s"
| "collect progress_callback total_tasks ((task, fut) # rest) (results, completed_tasks, calls, c) =
     (case future_result fut (st_timeout task) of
        Got result \<Rightarrow>
          (case progress_callback of
             None \<Rightarrow>
               collect progress_callback total_tasks rest
                 (results(st_tool_name task \<mapsto> result), completed_tasks + 1, calls, c)
           | Some callback \<Rightarrow>
               (case callback (completed_tasks + 1) total_tasks (st_tool_name task) c of
                  (CallbackReturned, c') \<Rightarrow>
                    collect progress_callback total_tasks rest
                      (results(st_tool_name task \<mapsto> result),
                       completed_tasks + 1,
                       calls @ [(completed_tasks + 1, total_tasks, st_tool_name task)], c')
                | (CallbackRaised e, c') \<Rightarrow>
                    collect progress_callback total_tasks rest
                      (results(st_tool_name task \<mapsto> exception_result task e),
                       completed_tasks + 1 + 1,
                       calls @ [(completed_tasks + 1, total_tasks, st_tool_name task)], c')
                | (CallbackTimeoutError, c') \<Rightarrow>
                    collect progress_callback total_tasks rest
                      (results(st_tool_name task \<mapsto> timeout_result task),
                       completed_tasks + 1 + 1,
                       calls @ [(completed_tasks + 1, total_tasks, st_tool_name task)], c')))
      | FutureTimeoutError \<Rightarrow>
          collect progress_callback total_tasks rest
            (results(st_tool_name task \<mapsto> timeout_result task), completed_tasks + 1, calls, c)
      | OtherException e \<Rightarrow>
          collect progress_callback total_tasks rest
            (results(st_tool_name task \<mapsto> exception_result task e), completed_tasks + 1, calls, c))"

text \<open>
  \<^verbatim>\<open>execute_parallel\<close>: the returned dictionary, the calls of the progress callback in
  the order they were made, and the state the callback is left in. An empty batch
  returns at once. \<^verbatim>\<open>ThreadPoolExecutor(max_workers=n)\<close> raises \<^verbatim>\<open>ValueError\<close> for an \<open>n\<close>
  that is not positive, and nothing catches it (\<open>Inl\<close>).
  \<^verbatim>\<open>sorted(tasks, key=priority, reverse=True)\<close> is stable, as is the insertion sort on the
  negated priority.
\<close>

definition sorted_tasks :: "ScanTask list \<Rightarrow> ScanTask list" where
  "sorted_tasks tasks = sort_key (\<lambda>t. - st_priority t) tasks"

definition execute_parallel ::
  "ParallelScanner \<Rightarrow> ScanTask list \<Rightarrow> (string \<rightharpoonup> task_executor) \<Rightarrow> 'c progress_callback option
     \<Rightarrow> 'c \<Rightarrow> string + (string \<rightharpoonup> ScanResult) \<times> (int \<times> int \<times> string) list \<times> 'c" where
  "execute_parallel P tasks tool_executors progress_callback c =
     (if tasks = [] then Inr (Map.empty, [], c)
      else if max_workers P \<le> 0 then Inl ''max_workers must be greater than 0''
      else
        (let total_tasks = int (length (sorted_tasks tasks));
             submitted = submit_all tool_executors (sorted_tasks tasks) (Map.empty, []);
             order = completion_order (max_workers P) (snd submitted);
             collected = collect progress_callback total_tasks
                           (as_completed (snd submitted) order) (fst submitted, 0, [], c)
         in Inr (fst collected, fst (snd (snd collected)), snd (snd (snd collected)))))"

section \<open>Concrete library and environment for the examples\<close>

definition demo_lib :: pylib where
  "demo_lib = \<lparr> md5_hexdigest = (\<lambda>s. s), float_repr = (\<lambda>r. ''0.0''),
                isoformat = (\<lambda>r. ''2024-01-01T00:00:00''), str_of_nonstring = (\<lambda>v. ''?'') \<rparr>"

text \<open>
  A world that is the log of what happened, oldest entry first: every executor below
  appends its name when it is called, a sleep appends \<open>sleep\<close>; the clock is the length
  of the log; only \<open>wget\<close> is installed.
\<close>

definition demo_env :: "string list env" where
  "demo_env = \<lparr> time_now = (\<lambda>w. real (length w)),
                time_sleep = (\<lambda>n w. (None, w @ [''sleep''])),
                which = (\<lambda>b. b = ''wget'') \<rparr>"

definition demo_config :: ResilientExecutor where
  "demo_config = \<lparr> max_retries = 2, retry_delay = 2, enable_fallback = True \<rparr>"

text \<open>An executor that is refused a connection on its first two calls and succeeds on the third.\<close>

definition flaky :: "string list executor" where
  "flaky target params w =
     (if length (filter (\<lambda>e. e = ''flaky'') w) < 2
      then (Inr (PDict [(''success'', PBool False), (''error'', PStr ''connection refused'')]),
            w @ [''flaky''])
      else (Inr (PDict [(''success'', PBool True)]), w @ [''flaky'']))"

text \<open>An executor whose tool is missing, and two executors that succeed.\<close>

definition httpx_missing :: "string list executor" where
  "httpx_missing target params w =
     (Inr (PDict [(''success'', PBool False), (''error'', PStr ''httpx: command not found'')]),
      w @ [''httpx''])"

definition curl_ok :: "string list executor" where
  "curl_ok target params w = (Inr (PDict [(''success'', PBool True)]), w @ [''curl''])"

definition wget_ok :: "string list executor" where
  "wget_ok target params w =
     (Inr (PDict [(''success'', PBool True), (''status'', PInt 200)]), w @ [''wget''])"

definition demo_executors :: "string \<rightharpoonup> string list executor" where
  "demo_executors = [''httpx'' \<mapsto> httpx_missing, ''curl'' \<mapsto> curl_ok, ''wget'' \<mapsto> wget_ok]"

text \<open>An executor that reports failure, for the cache wrapper.\<close>

definition failing :: "string list executor" where
  "failing target params w = (Inr (PDict [(''success'', PBool False)]), w @ [''failing''])"

text \<open>A scan that runs for five seconds and succeeds, in a task that allows one second.\<close>

definition slow_scan :: task_executor where
  "slow_scan target params = (Inr (PDict [(''success'', PBool True)]), 5)"

definition slow_task :: ScanTask where
  "slow_task = \<lparr> st_tool_name = ''nmap'', st_target = ''example.com'', st_params = [],
                 st_timeout = 1, st_priority = 1 \<rparr>"

text \<open>A quick scan whose executor raises, with a lower priority.\<close>

definition broken_scan :: task_executor where
  "broken_scan target params = (Inl ''connection reset'', 1 / 2)"

definition quick_task :: ScanTask where
  "quick_task = \<lparr> st_tool_name = ''httpx'', st_target = ''example.com'', st_params = [],
                  st_timeout = 30, st_priority = 0 \<rparr>"

text \<open>A task for which no executor is registered.\<close>

definition orphan_task :: ScanTask where
  "orphan_task = \<lparr> st_tool_name = ''nikto'', st_target = ''example.com'', st_params = [],
                   st_timeout = 300, st_priority = 0 \<rparr>"

definition demo_scanner :: ParallelScanner where
  "demo_scanner = \<lparr> max_workers = 5 \<rparr>"

definition demo_task_executors :: "string \<rightharpoonup> task_executor" where
  "demo_task_executors = [''nmap'' \<mapsto> slow_scan, ''httpx'' \<mapsto> broken_scan]"




definition negative_budget :: ResilientExecutor where
  "negative_budget = \<lparr> max_retries = - 1, retry_delay = 2, enable_fallback = True \<rparr>"

section \<open>Notions used to state the properties\<close>

text \<open>
  An attempt fails in a way that is retried: the executor raised, or it returned a
  value that does not report success and whose error is classified neither as
  tool-not-found nor as invalid-target.
\<close>

fun retryable_failure :: "pylib \<Rightarrow> string + pyval \<Rightarrow> bool" where
  "retryable_failure L (Inl e) = True"
| "retryable_failure L (Inr result) =
     (\<not> reports_success result \<and> classify L result \<noteq> TOOL_NOT_FOUND
      \<and> classify L result \<noteq> INVALID_TARGET)"




text \<open>\<^verbatim>\<open>result.get(k)\<close> on a returned value: \<^verbatim>\<open>None\<close> when the key is absent.\<close>

fun result_get :: "pyval \<Rightarrow> string \<Rightarrow> pyval" where
  "result_get (PDict d) k = dict_get d k PNone"
| "result_get v k = PNone"

text \<open>
  \<^verbatim>\<open>result.get(k)\<close> on what a call gave: nothing when the call raised, and for a returned
  value \<^verbatim>\<open>None\<close> when the key is absent.
\<close>

fun outcome_get :: "string + pyval \<Rightarrow> string \<Rightarrow> pyval option" where
  "outcome_get (Inr result) k = Some (result_get result k)"
| "outcome_get (Inl e) k = None"

text \<open>The tasks of a batch that are submitted to the pool, in the order of submission.\<close>

definition dispatched_tasks :: "(string \<rightharpoonup> task_executor) \<Rightarrow> ScanTask list \<Rightarrow> ScanTask list" where
  "dispatched_tasks tool_executors tasks =
     filter (\<lambda>t. tool_executors (st_tool_name t) \<noteq> None) (sorted_tasks tasks)"

text \<open>
  The positions of the dispatched tasks in the order in which they complete, for a
  pool of the given scanner.
\<close>

definition completion ::
  "ParallelScanner \<Rightarrow> (string \<rightharpoonup> task_executor) \<Rightarrow> ScanTask list \<Rightarrow> nat list" where
  "completion P tool_executors tasks =
     completion_order (max_workers P)
       (map (\<lambda>t. (t, submit t (the (tool_executors (st_tool_name t)))))
            (dispatched_tasks tool_executors tasks))"

text \<open>No callback is supplied, or the callback returns whenever it is called.\<close>

fun always_returns :: "'c progress_callback option \<Rightarrow> bool" where
  "always_returns None = True"
| "always_returns (Some callback) =
     (\<forall>completed total_tasks current_tool c.
        fst (callback completed total_tasks current_tool c) = CallbackReturned)"

text \<open>
  A result that the batch itself accounts for under a name: the immediate failure of a
  task of that name when the name has no executor, and otherwise what
  \<^verbatim>\<open>execute_single_task\<close> returned for a task of that name.
\<close>

definition own_result ::
  "(string \<rightharpoonup> task_executor) \<Rightarrow> ScanTask list \<Rightarrow> string \<Rightarrow> ScanResult \<Rightarrow> bool" where
  "own_result tool_executors tasks k r =
     (\<exists>t \<in> set tasks. st_tool_name t = k \<and>
        (case tool_executors k of
           None \<Rightarrow> r = no_executor_result t
         | Some f \<Rightarrow> r = execute_single_task t f))"

section \<open>Properties of the classification\<close>

lemma str_in_sublist: "str_in p t \<longleftrightarrow> sublist p t"
  by (induction t) (simp_all add: sublist_Cons_right)

lemma group_matches_iff:
  "group_matches ps t \<longleftrightarrow> (\<exists>p \<in> set ps. sublist (lower p) t)"
  by (induction ps) (simp_all add: str_in_sublist)

lemma scan_groups_find:
  "scan_groups gs t =
     (case find (\<lambda>g. \<exists>p \<in> set (snd g). sublist (lower p) t) gs of
        None \<Rightarrow> UNKNOWN
      | Some g \<Rightarrow> fst g)"
  by (induction gs t rule: scan_groups.induct) (simp_all add: group_matches_iff)

lemma scan_groups_range: "scan_groups gs t \<in> insert UNKNOWN (fst ` set gs)"
  by (induction gs t rule: scan_groups.induct) auto

text \<open>
  C9. For every error-message/stderr pair, the groups are checked in the order
  tool-not-found, timeout, permission-denied, network-error, waf-detected, rate-limited;
  the category is that of the first group one of whose patterns, lowercased, is a
  substring of the lowercased text \<^verbatim>\<open>error_message + " " + stderr\<close>, and it is unknown when
  no group has such a pattern.
\<close>

theorem diagnose_error_first_match:
  "map fst ERROR_PATTERNS =
     [TOOL_NOT_FOUND, TIMEOUT, PERMISSION_DENIED, NETWORK_ERROR, WAF_DETECTED, RATE_LIMITED]
   \<and> diagnose_error error_message stderr returncode =
     (case find (\<lambda>g. \<exists>p \<in> set (snd g). sublist (lower p) (lower (error_message @ '' '' @ stderr)))
                ERROR_PATTERNS of
        None \<Rightarrow> UNKNOWN
      | Some g \<Rightarrow> fst g)"
  by (simp add: diagnose_error_def scan_groups_find) (simp add: ERROR_PATTERNS_def)

text \<open>
  A text with \<^verbatim>\<open>rate limit\<close> in it matches the waf-detected group and the rate-limited
  group; the first of the two in the table decides.
\<close>

theorem diagnose_error_first_match_witness:
  "diagnose_error ''HTTP 429: Rate Limit exceeded'' [] (PInt (- 1)) = WAF_DETECTED
   \<and> find (\<lambda>g. \<exists>p \<in> set (snd g).
                 sublist (lower p) (lower (''HTTP 429: Rate Limit exceeded'' @ '' '' @ [])))
          ERROR_PATTERNS =
       Some (WAF_DETECTED,
             [''WAF'', ''Web Application Firewall'', ''blocked by security'', ''rate limit''])"
  using diagnose_error_first_match [of "''HTTP 429: Rate Limit exceeded''" "[]" "PInt (- 1)"]
  by code_simp

text \<open>
  C10. Whatever the message, the stderr text and the return code, the classifier never
  answers invalid-target: no group of the pattern table carries that category.
\<close>

theorem diagnose_error_never_invalid_target:
  "diagnose_error error_message stderr returncode \<noteq> INVALID_TARGET
   \<and> INVALID_TARGET \<notin> fst ` set ERROR_PATTERNS"
proof -
  have notin: "INVALID_TARGET \<notin> fst ` set ERROR_PATTERNS"
    by (simp add: ERROR_PATTERNS_def)
  have "diagnose_error error_message stderr returncode \<in> insert UNKNOWN (fst ` set ERROR_PATTERNS)"
    unfolding diagnose_error_def Let_def by (rule scan_groups_range)
  with notin have "diagnose_error error_message stderr returncode \<noteq> INVALID_TARGET"
    by force
  with notin show ?thesis by simp
qed

theorem diagnose_error_never_invalid_target_witness:
  "diagnose_error ''Invalid target: malformed URL'' [] (PInt 2) = UNKNOWN
   \<and> diagnose_error ''Invalid target: malformed URL'' [] (PInt 2) \<noteq> INVALID_TARGET"
  using diagnose_error_never_invalid_target [of "''Invalid target: malformed URL''" "[]" "PInt 2"]
  by code_simp

section \<open>Properties of the cache\<close>

lemma sort_key_fst_unique:
  assumes "distinct (map fst ps1)" and "distinct (map fst ps2)" and "set ps1 = set ps2"
  shows "sort_key fst ps1 = sort_key fst ps2"
proof -
  have d1: "distinct ps1" and d2: "distinct ps2"
    using assms(1,2) by (simp_all add: distinct_map)
  have "mset ps1 = mset ps2"
    using d1 d2 assms(3) by (simp add: set_eq_iff_mset_eq_distinct)
  then have m: "mset ps1 = mset (sort_key fst ps2)" by simp
  have inj: "inj_on fst (set ps1)"
    using assms(1) by (simp add: distinct_map)
  show ?thesis
    by (rule sort_key_inj_key_eq [OF m inj]) simp
qed

lemma generate_cache_key_order:
  assumes "distinct (map fst ps1)" and "distinct (map fst ps2)" and "set ps1 = set ps2"
  shows "generate_cache_key L tool_name target ps1 = generate_cache_key L tool_name target ps2"
  using sort_key_fst_unique [OF assms] by (simp add: generate_cache_key_def)

lemma get_after_set_live:
  assumes "generate_cache_key L k t (params_or_empty p') = generate_cache_key L k t (params_or_empty p)"
    and "now' < now + real_of_int (resolve_ttl k ttl st)"
  shows "ScanResultCache_get L now' k t p' (snd (ScanResultCache_set L now k t p v ttl st cache)) =
           (Some [(''result'', v), (''tool_name'', PStr k), (''target'', PStr t),
                  (''cached_at'', PStr (isoformat L now)),
                  (''ttl'', PInt (resolve_ttl k ttl st))],
            snd (ScanResultCache_set L now k t p v ttl st cache))"
  using assms by (simp add: ScanResultCache_get_def ScanResultCache_set_def Let_def)

lemma get_after_set_expired:
  assumes "generate_cache_key L k t (params_or_empty p') = generate_cache_key L k t (params_or_empty p)"
    and "now + real_of_int (resolve_ttl k ttl st) \<le> now'"
  shows "ScanResultCache_get L now' k t p' (snd (ScanResultCache_set L now k t p v ttl st cache)) =
           (None, cache(generate_cache_key L k t (params_or_empty p) := None))"
  using assms by (simp add: ScanResultCache_get_def ScanResultCache_set_def Let_def)

text \<open>
  C1, as amended. On the process-local backend, \<^verbatim>\<open>set(k, t, p, v)\<close> answers \<^verbatim>\<open>True\<close>, and a
  \<^verbatim>\<open>get(k, t, p)\<close> at an instant before \<^verbatim>\<open>expires_at\<close> (the instant of the \<^verbatim>\<open>set\<close> plus the
  resolved TTL) returns the stored record \<^verbatim>\<open>cached_data\<close>, whose field \<^verbatim>\<open>'result'\<close> is \<open>v\<close>,
  and leaves the cache as it is; a \<^verbatim>\<open>get\<close> at or after \<^verbatim>\<open>expires_at\<close> returns \<^verbatim>\<open>None\<close> and
  deletes the entry.
\<close>

theorem cache_roundtrip:
  "fst (ScanResultCache_set L now k t p v ttl st cache)
   \<and> (now' < now + real_of_int (resolve_ttl k ttl st) \<longrightarrow>
        ScanResultCache_get L now' k t p (snd (ScanResultCache_set L now k t p v ttl st cache)) =
          (Some [(''result'', v), (''tool_name'', PStr k), (''target'', PStr t),
                 (''cached_at'', PStr (isoformat L now)),
                 (''ttl'', PInt (resolve_ttl k ttl st))],
           snd (ScanResultCache_set L now k t p v ttl st cache)))
   \<and> (now + real_of_int (resolve_ttl k ttl st) \<le> now' \<longrightarrow>
        ScanResultCache_get L now' k t p (snd (ScanResultCache_set L now k t p v ttl st cache)) =
          (None, cache(generate_cache_key L k t (params_or_empty p) := None)))"
proof -
  have "fst (ScanResultCache_set L now k t p v ttl st cache)"
    by (simp add: ScanResultCache_set_def Let_def)
  then show ?thesis
    by (simp add: get_after_set_live get_after_set_expired)
qed

text \<open>A result of \<^verbatim>\<open>nmap\<close>, whose TTL is 7200 seconds, read after 100 and after 7200 seconds.\<close>

theorem cache_roundtrip_witness:
  "fst (ScanResultCache_get demo_lib 100 ''nmap'' ''example.com'' None
          (snd (ScanResultCache_set demo_lib 0 ''nmap'' ''example.com'' None
                  (PDict [(''open_ports'', PList [PInt 80])]) None ''default'' Map.empty))) =
     Some [(''result'', PDict [(''open_ports'', PList [PInt 80])]),
           (''tool_name'', PStr ''nmap''), (''target'', PStr ''example.com''),
           (''cached_at'', PStr ''2024-01-01T00:00:00''), (''ttl'', PInt 7200)]
   \<and> fst (ScanResultCache_get demo_lib 7200 ''nmap'' ''example.com'' None
          (snd (ScanResultCache_set demo_lib 0 ''nmap'' ''example.com'' None
                  (PDict [(''open_ports'', PList [PInt 80])]) None ''default'' Map.empty))) = None"
proof -
  have ttl: "resolve_ttl ''nmap'' None ''default'' = 7200"
    by (simp add: resolve_ttl_def ttl_get_def TOOL_TTL_def)
  have iso: "isoformat demo_lib 0 = ''2024-01-01T00:00:00''"
    by (simp add: demo_lib_def)
  note rt = cache_roundtrip [of demo_lib 0 "''nmap''" "''example.com''" None
               "PDict [(''open_ports'', PList [PInt 80])]" None "''default''" Map.empty]
  have live: "(100::real) < 0 + real_of_int (resolve_ttl ''nmap'' None ''default'')"
    and dead: "0 + real_of_int (resolve_ttl ''nmap'' None ''default'') \<le> (7200::real)"
    by (simp_all add: ttl)
  from rt [of 100] live rt [of 7200] dead show ?thesis
    by (simp add: ttl iso)
qed

text \<open>
  C1 as stated fails there: what \<^verbatim>\<open>get\<close> returns right after the \<^verbatim>\<open>set\<close> is the record
  around the payload, not the payload.
\<close>

theorem get_returns_the_wrapper:
  "map_option PDict
     (fst (ScanResultCache_get demo_lib 0 ''nmap'' ''example.com'' None
             (snd (ScanResultCache_set demo_lib 0 ''nmap'' ''example.com'' None
                     (PDict [(''open_ports'', PList [PInt 80])]) None ''default'' Map.empty))))
   \<noteq> Some (PDict [(''open_ports'', PList [PInt 80])])"
  by (simp add: ScanResultCache_get_def ScanResultCache_set_def Let_def resolve_ttl_def
        ttl_get_def TOOL_TTL_def)

text \<open>
  C8. The cache key is a function of the tool, the target and the parameters, and it
  does not depend on the insertion order of the parameters: two dictionaries with the
  same items give the same key, so a \<^verbatim>\<open>get\<close> with one order finds, while it is live, the
  entry that a \<^verbatim>\<open>set\<close> with the other order stored.
\<close>

theorem cache_key_order_independent:
  assumes "distinct (map fst ps1)" and "distinct (map fst ps2)" and "set ps1 = set ps2"
  shows "generate_cache_key L tool_name target ps1 = generate_cache_key L tool_name target ps2
       \<and> (now' < now + real_of_int (resolve_ttl tool_name ttl st) \<longrightarrow>
            fst (ScanResultCache_get L now' tool_name target (Some ps2)
                   (snd (ScanResultCache_set L now tool_name target (Some ps1) v ttl st cache))) =
            Some [(''result'', v), (''tool_name'', PStr tool_name), (''target'', PStr target),
                  (''cached_at'', PStr (isoformat L now)),
                  (''ttl'', PInt (resolve_ttl tool_name ttl st))])"
proof -
  have key: "generate_cache_key L tool_name target ps2 = generate_cache_key L tool_name target ps1"
    using generate_cache_key_order [OF assms] by simp
  then have "generate_cache_key L tool_name target (params_or_empty (Some ps2)) =
             generate_cache_key L tool_name target (params_or_empty (Some ps1))"
    by simp
  from get_after_set_live [OF this] key show ?thesis by simp
qed

text \<open>The parameters \<^verbatim>\<open>{a: 1, b: 2}\<close> and \<^verbatim>\<open>{b: 2, a: 1}\<close>.\<close>

theorem cache_key_order_independent_witness:
  "generate_cache_key demo_lib ''nmap'' ''example.com'' [(''a'', PInt 1), (''b'', PInt 2)] =
   generate_cache_key demo_lib ''nmap'' ''example.com'' [(''b'', PInt 2), (''a'', PInt 1)]
   \<and> fst (ScanResultCache_get demo_lib 10 ''nmap'' ''example.com'' (Some [(''b'', PInt 2), (''a'', PInt 1)])
            (snd (ScanResultCache_set demo_lib 0 ''nmap'' ''example.com''
                    (Some [(''a'', PInt 1), (''b'', PInt 2)]) (PDict [(''up'', PBool True)])
                    (Some 60) ''default'' Map.empty))) =
       Some [(''result'', PDict [(''up'', PBool True)]), (''tool_name'', PStr ''nmap''),
             (''target'', PStr ''example.com''), (''cached_at'', PStr ''2024-01-01T00:00:00''),
             (''ttl'', PInt 60)]"
proof -
  have d1: "distinct (map fst [(''a'', PInt 1), (''b'', PInt 2)])"
    and d2: "distinct (map fst [(''b'', PInt 2), (''a'', PInt 1)])"
    and s: "set [(''a'', PInt 1), (''b'', PInt 2)] = set [(''b'', PInt 2), (''a'', PInt 1)]"
    by auto
  have ttl: "resolve_ttl ''nmap'' (Some 60) ''default'' = 60"
    by (simp add: resolve_ttl_def)
  from cache_key_order_independent [OF d1 d2 s, of demo_lib "''nmap''" "''example.com''" 10 0
         "Some 60" "''default''" "PDict [(''up'', PBool True)]" Map.empty]
  show ?thesis
    by (simp add: ttl demo_lib_def)
qed

section \<open>Properties of cache-aware execution\<close>

lemma get_map_le: "snd (ScanResultCache_get L now tool_name target params cache) \<subseteq>\<^sub>m cache"
  by (auto simp: ScanResultCache_get_def Let_def map_le_def split: option.splits)

lemma get_cases:
  "snd (ScanResultCache_get L now tool_name target params cache) = cache
   \<or> snd (ScanResultCache_get L now tool_name target params cache) =
       cache(generate_cache_key L tool_name target (params_or_empty params) := None)"
  by (simp add: ScanResultCache_get_def Let_def split: option.splits)

text \<open>
  C5, as amended. When the wrapper reaches the executor (the refresh is forced, or the
  lookup found nothing) and the executor returns a dictionary that does not report
  success, nothing is stored: the cache after the call is the cache the lookup left,
  which holds no entry that the cache before did not hold (the lookup deletes an expired
  entry under the key); the world is the one the executor left; and the value returned
  is the executor's dictionary with the key \<^verbatim>\<open>from_cache\<close> set to \<^verbatim>\<open>False\<close>.
\<close>

theorem failure_not_cached:
  assumes "executor_func target params w = (Inr (PDict r), w1)"
    and "\<not> truthy (dict_get r ''success'' PNone)"
    and "force_refresh
         \<or> fst (ScanResultCache_get L (time_now E w) tool_name target (Some params) cache) = None"
  shows "execute_with_cache L E tool_name target params executor_func force_refresh scan_type
           (cache, w) =
         (Inr (PDict (dict_set r ''from_cache'' (PBool False))),
          (if force_refresh then cache
           else snd (ScanResultCache_get L (time_now E w) tool_name target (Some params) cache),
           w1))
       \<and> fst (snd (execute_with_cache L E tool_name target params executor_func force_refresh
                      scan_type (cache, w))) \<subseteq>\<^sub>m cache
       \<and> (fst (snd (execute_with_cache L E tool_name target params executor_func force_refresh
                       scan_type (cache, w))) = cache
            \<or> fst (snd (execute_with_cache L E tool_name target params executor_func force_refresh
                          scan_type (cache, w))) =
               cache(generate_cache_key L tool_name target params := None))"
proof -
  have run: "execute_and_store L E tool_name target params executor_func scan_type (c, w) =
               (Inr (PDict (dict_set r ''from_cache'' (PBool False))), (c, w1))" for c
    using assms(1,2) by (simp add: execute_and_store_def)
  have eq: "execute_with_cache L E tool_name target params executor_func force_refresh scan_type
              (cache, w) =
            (Inr (PDict (dict_set r ''from_cache'' (PBool False))),
             (if force_refresh then cache
              else snd (ScanResultCache_get L (time_now E w) tool_name target (Some params) cache),
              w1))"
  proof (cases force_refresh)
    case True
    then show ?thesis by (simp add: execute_with_cache_def run)
  next
    case False
    with assms(3)
    have "fst (ScanResultCache_get L (time_now E w) tool_name target (Some params) cache) = None"
      by simp
    then show ?thesis
      using False
      by (cases "ScanResultCache_get L (time_now E w) tool_name target (Some params) cache")
         (simp add: execute_with_cache_def run)
  qed
  have "snd (ScanResultCache_get L (time_now E w) tool_name target (Some params) cache) = cache
        \<or> snd (ScanResultCache_get L (time_now E w) tool_name target (Some params) cache) =
            cache(generate_cache_key L tool_name target params := None)"
    using get_cases [of L "time_now E w" tool_name target "Some params" cache] by simp
  then show ?thesis
    by (auto simp: eq get_map_le)
qed

text \<open>A failing executor on an empty cache.\<close>

theorem failure_not_cached_witness:
  "fst (ScanResultCache_get demo_lib (time_now demo_env []) ''nmap'' ''example.com'' (Some []) Map.empty) = None
   \<and> fst (execute_with_cache demo_lib demo_env ''nmap'' ''example.com'' [] failing False ''default''
            (Map.empty, [])) =
       Inr (PDict [(''success'', PBool False), (''from_cache'', PBool False)])
   \<and> fst (snd (execute_with_cache demo_lib demo_env ''nmap'' ''example.com'' [] failing False
                  ''default'' (Map.empty, []))) \<subseteq>\<^sub>m Map.empty"
proof -
  have h1: "failing ''example.com'' [] [] = (Inr (PDict [(''success'', PBool False)]), [''failing''])"
    by (simp add: failing_def)
  have h2: "\<not> truthy (dict_get [(''success'', PBool False)] ''success'' PNone)"
    by (simp add: dict_get_def)
  have h3: "fst (ScanResultCache_get demo_lib (time_now demo_env []) ''nmap'' ''example.com''
                   (Some []) Map.empty) = None"
    by (simp add: ScanResultCache_get_def Let_def)
  then have h3': "False \<or> fst (ScanResultCache_get demo_lib (time_now demo_env []) ''nmap''
                   ''example.com'' (Some []) Map.empty) = None"
    by simp
  show ?thesis
    using failure_not_cached [where executor_func = failing and target = "''example.com''"
        and params = "[]" and w = "[]" and L = demo_lib and E = demo_env
        and tool_name = "''nmap''" and cache = Map.empty and force_refresh = False
        and scan_type = "''default''", OF h1 h2 h3'] h3
    by (simp add: get_map_le)
qed

text \<open>
  C5 as stated fails there: what the caller gets is not what the executor returned, it
  has one key more.
\<close>

theorem failed_result_is_modified:
  "fst (execute_with_cache demo_lib demo_env ''nmap'' ''example.com'' [] failing False ''default''
          (Map.empty, [])) =
     Inr (PDict [(''success'', PBool False), (''from_cache'', PBool False)])
   \<and> fst (execute_with_cache demo_lib demo_env ''nmap'' ''example.com'' [] failing False ''default''
          (Map.empty, [])) \<noteq> fst (failing ''example.com'' [] [])"
  by (simp add: execute_with_cache_def execute_and_store_def ScanResultCache_get_def Let_def
        failing_def dict_get_def)

section \<open>Properties of the resilient executor\<close>

text \<open>One pass through the body of the loop, and the loop unfolded once.\<close>

lemma attempt_retry:
  assumes "retry_count + 1 \<le> max_retries X"
    and "executor_func target params w = (out, w1)"
    and "retryable_failure L out"
    and "py_sleep E (retry_delay X) w1 = (None, s)"
  shows "attempt L E X tool_name target params executor_func retry_count w =
           Continue (retry_count + 1)
             (case out of
                Inl e \<Rightarrow> exception_context E tool_name target retry_count e w1
              | Inr result \<Rightarrow> failure_context L E tool_name target retry_count result w1)
             s"
proof (cases out)
  case (Inl e)
  show ?thesis
    by (simp add: attempt_def except_handler_def assms(1,2,4) Inl)
next
  case (Inr result)
  with assms(3) have "\<not> reports_success result"
    and "ec_error_type (failure_context L E tool_name target retry_count result w1) \<noteq> TOOL_NOT_FOUND"
    and "ec_error_type (failure_context L E tool_name target retry_count result w1) \<noteq> INVALID_TARGET"
    by (simp_all add: failure_context_def)
  then show ?thesis
    by (simp add: attempt_def assms(1,2,4) Inr Let_def)
qed

lemma attempt_success:
  assumes "executor_func target params w = (Inr result, w1)"
    and "reports_success result"
  shows "attempt L E X tool_name target params executor_func retry_count w = Return result w1"
  using assms by (simp add: attempt_def)

lemma loop_continue:
  assumes "retry_count \<le> max_retries X"
    and "attempt L E X tool_name target params executor_func retry_count w =
           Continue retry_count' error_context w'"
  shows "primary_attempts L E X tool_name target params executor_func retry_count last_error w =
           primary_attempts L E X tool_name target params executor_func retry_count'
             (Some error_context) w'"
  using assms by (subst primary_attempts.simps) simp

lemma loop_return:
  assumes "retry_count \<le> max_retries X"
    and "attempt L E X tool_name target params executor_func retry_count w = Return result w'"
  shows "primary_attempts L E X tool_name target params executor_func retry_count last_error w =
           (Returned result, w')"
  using assms by (subst primary_attempts.simps) simp

text \<open>
  C4, as amended. With \<^verbatim>\<open>max_retries = 2\<close>, an executor that fails in a retried way on its
  first and second call and reports success on its third, the backoff sleep after
  each of the two failures returning normally (\<^verbatim>\<open>time.sleep\<close> raises for a negative
  \<^verbatim>\<open>retry_delay\<close>), makes \<^verbatim>\<open>execute_with_resilience\<close> return the value of the third call
  as it is, in the world left by exactly three calls with one sleep before the second
  and one before the third. Nothing is added to that value: it has a key
  \<^verbatim>\<open>retry_count\<close> or \<^verbatim>\<open>used_alternative\<close> only if the executor put it there.
\<close>

theorem retry_then_succeed:
  assumes "max_retries X = 2"
    and "executor_func target params w0 = (out1, w1)"
    and "retryable_failure L out1"
    and "py_sleep E (retry_delay X) w1 = (None, s1)"
    and "executor_func target params s1 = (out2, w2)"
    and "retryable_failure L out2"
    and "py_sleep E (retry_delay X) w2 = (None, s2)"
    and "executor_func target params s2 = (Inr result, w3)"
    and "reports_success result"
  shows "execute_with_resilience L E X tool_name target params executor_func tool_executors w0 =
           (Inr result, w3)"
proof -
  let ?run = "primary_attempts L E X tool_name target params executor_func"
  let ?pass = "attempt L E X tool_name target params executor_func"
  let ?c1 = "case out1 of
               Inl e \<Rightarrow> exception_context E tool_name target 0 e w1
             | Inr r \<Rightarrow> failure_context L E tool_name target 0 r w1"
  let ?c2 = "case out2 of
               Inl e \<Rightarrow> exception_context E tool_name target 1 e w2
             | Inr r \<Rightarrow> failure_context L E tool_name target 1 r w2"
  have a1: "?pass 0 w0 = Continue (0 + 1) ?c1 s1"
    using assms(1,2,3,4) by (intro attempt_retry [where out = out1]) simp_all
  have a2: "?pass 1 s1 = Continue (1 + 1) ?c2 s2"
    using assms(1,5,6,7) by (intro attempt_retry [where out = out2]) simp_all
  have a3: "?pass 2 s2 = Return result w3"
    using assms(8,9) by (rule attempt_success)
  have "?run 0 None w0 = ?run (0 + 1) (Some ?c1) s1"
    using a1 assms(1) by (intro loop_continue) simp_all
  also have "\<dots> = ?run (1 + 1) (Some ?c2) s2"
    using a2 assms(1) by (simp add: loop_continue [where retry_count = 1])
  also have "\<dots> = (Returned result, w3)"
    using a3 assms(1) by (simp add: loop_return [where retry_count = 2])
  finally show ?thesis
    by (simp add: execute_with_resilience_def)
qed

text \<open>
  C6, as amended. With a retry budget that is not negative, an executor whose first
  call returns a failure classified as tool-not-found or invalid-target is called
  exactly once: the loop is left in the world right after that call, no sleep is made
  and the counter stays at 0. What follows is the fallback, run in that world on the
  error recorded for that call with \<^verbatim>\<open>retry_count = 0\<close>, or, when the fallback is
  disabled, the failure result of that error: \<^verbatim>\<open>success = False\<close>, the tool, the target,
  the message, the category, \<^verbatim>\<open>retry_count = 0\<close>, the suggestions and the timestamp.
  Among the budgets that are not negative, \<^verbatim>\<open>max_retries\<close> has no part in the outcome.
\<close>

theorem non_retryable_short_circuit:
  assumes "0 \<le> max_retries X"
    and "executor_func target params w0 = (Inr result, w1)"
    and "\<not> reports_success result"
    and "classify L result = TOOL_NOT_FOUND \<or> classify L result = INVALID_TARGET"
  shows "execute_with_resilience L E X tool_name target params executor_func tool_executors w0 =
           (if enable_fallback X
            then (Inr (fst (try_fallback E tool_name target params tool_executors
                              \<lparr> ec_error_type = classify L result, ec_tool_name = tool_name,
                                ec_target = target, ec_error_message = error_msg_of result,
                                ec_timestamp = time_now E w1, ec_retry_count = 0,
                                ec_suggestions = get_suggestions L E (classify L result) tool_name \<rparr>
                              w1)),
                  snd (try_fallback E tool_name target params tool_executors
                         \<lparr> ec_error_type = classify L result, ec_tool_name = tool_name,
                           ec_target = target, ec_error_message = error_msg_of result,
                           ec_timestamp = time_now E w1, ec_retry_count = 0,
                           ec_suggestions = get_suggestions L E (classify L result) tool_name \<rparr>
                         w1))
            else (Inr (PDict [(''success'', PBool False),
                              (''tool'', PStr tool_name),
                              (''target'', PStr target),
                              (''error'', error_msg_of result),
                              (''error_type'', PStr (if classify L result = TOOL_NOT_FOUND
                                                     then ''tool_not_found'' else ''invalid_target'')),
                              (''retry_count'', PInt 0),
                              (''suggestions'',
                               PList (map PStr (get_suggestions L E (classify L result) tool_name))),
                              (''timestamp'', PFloat (time_now E w1))]),
                  w1))"
proof -
  have "attempt L E X tool_name target params executor_func 0 w0 =
          Break (failure_context L E tool_name target 0 result w1) w1"
    using assms(2,3,4) by (auto simp: attempt_def failure_context_def Let_def)
  then have "primary_attempts L E X tool_name target params executor_func 0 None w0 =
          (Left (Some (failure_context L E tool_name target 0 result w1)), w1)"
    using assms(1) by (subst primary_attempts.simps) simp
  then show ?thesis
    using assms(4)
    by (auto simp: execute_with_resilience_def failure_context_def split: prod.splits)
qed







text \<open>The flaky executor of the examples under the default configuration.\<close>

theorem retry_then_succeed_witness:
  "max_retries demo_config = 2
   \<and> retryable_failure demo_lib (fst (flaky ''example.com'' [] []))
   \<and> py_sleep demo_env (retry_delay demo_config) [''flaky''] = (None, [''flaky'', ''sleep''])
   \<and> retryable_failure demo_lib (fst (flaky ''example.com'' [] [''flaky'', ''sleep'']))
   \<and> execute_with_resilience demo_lib demo_env demo_config ''flaky'' ''example.com'' [] flaky
         demo_executors [] =
       (Inr (PDict [(''success'', PBool True)]),
        [''flaky'', ''sleep'', ''flaky'', ''sleep'', ''flaky''])"
proof -
  have h1: "max_retries demo_config = 2"
    by (simp add: demo_config_def)
  have h2: "flaky ''example.com'' [] [] =
              (Inr (PDict [(''success'', PBool False), (''error'', PStr ''connection refused'')]),
               [''flaky''])"
    by (simp add: flaky_def)
  have h3: "retryable_failure demo_lib
              (Inr (PDict [(''success'', PBool False), (''error'', PStr ''connection refused'')]))"
    by code_simp
  have s1: "py_sleep demo_env (retry_delay demo_config) [''flaky''] = (None, [''flaky'', ''sleep''])"
    by (simp add: py_sleep_def demo_env_def demo_config_def)
  have h4: "flaky ''example.com'' [] [''flaky'', ''sleep''] =
              (Inr (PDict [(''success'', PBool False), (''error'', PStr ''connection refused'')]),
               [''flaky'', ''sleep'', ''flaky''])"
    by (simp add: flaky_def)
  have s2: "py_sleep demo_env (retry_delay demo_config) [''flaky'', ''sleep'', ''flaky''] =
              (None, [''flaky'', ''sleep'', ''flaky'', ''sleep''])"
    by (simp add: py_sleep_def demo_env_def demo_config_def)
  have h6: "flaky ''example.com'' [] [''flaky'', ''sleep'', ''flaky'', ''sleep''] =
              (Inr (PDict [(''success'', PBool True)]),
               [''flaky'', ''sleep'', ''flaky'', ''sleep'', ''flaky''])"
    by (simp add: flaky_def)
  have h7: "reports_success (PDict [(''success'', PBool True)])"
    by (simp add: dict_get_def)
  have "execute_with_resilience demo_lib demo_env demo_config ''flaky'' ''example.com'' [] flaky
          demo_executors [] =
        (Inr (PDict [(''success'', PBool True)]),
         [''flaky'', ''sleep'', ''flaky'', ''sleep'', ''flaky''])"
    using retry_then_succeed [where X = demo_config and executor_func = flaky
        and target = "''example.com''" and params = "[]" and ?w0.0 = "[]" and L = demo_lib
        and E = demo_env, OF h1 h2 h3 s1 h4 h3 s2 h6 h7] .
  then show ?thesis using h1 h2 h3 h4 s1 by simp
qed

text \<open>
  C4 as stated fails there: the returned value is the dictionary of the third call,
  and asking it for \<^verbatim>\<open>retry_count\<close> gives \<^verbatim>\<open>None\<close>, not 2.
\<close>

theorem retry_count_not_reported:
  "outcome_get (fst (execute_with_resilience demo_lib demo_env demo_config ''flaky'' ''example.com''
                       [] flaky demo_executors [])) ''retry_count'' \<noteq> Some (PInt 2)
   \<and> outcome_get (fst (execute_with_resilience demo_lib demo_env demo_config ''flaky'' ''example.com''
                       [] flaky demo_executors [])) ''retry_count'' = Some PNone
   \<and> execute_with_resilience demo_lib demo_env demo_config ''flaky'' ''example.com'' [] flaky
         demo_executors [] =
       (Inr (PDict [(''success'', PBool True)]),
        [''flaky'', ''sleep'', ''flaky'', ''sleep'', ''flaky''])"
proof -
  have "execute_with_resilience demo_lib demo_env demo_config ''flaky'' ''example.com'' [] flaky
          demo_executors [] =
        (Inr (PDict [(''success'', PBool True)]),
         [''flaky'', ''sleep'', ''flaky'', ''sleep'', ''flaky''])"
    by code_simp
  then show ?thesis
    by (simp add: dict_get_def)
qed

text \<open>
  A missing \<^verbatim>\<open>httpx\<close> under a budget of two retries: one call of its executor, then
  the fallback, which finds \<^verbatim>\<open>wget\<close>.
\<close>

theorem non_retryable_short_circuit_witness:
  "0 \<le> max_retries demo_config
   \<and> classify demo_lib
         (PDict [(''success'', PBool False), (''error'', PStr ''httpx: command not found'')]) =
       TOOL_NOT_FOUND
   \<and> execute_with_resilience demo_lib demo_env demo_config ''httpx'' ''example.com'' []
         httpx_missing demo_executors [] =
       (Inr (PDict [(''success'', PBool True), (''status'', PInt 200),
                    (''used_alternative'', PBool True), (''original_tool'', PStr ''httpx''),
                    (''alternative_tool'', PStr ''wget'')]),
        [''httpx'', ''wget''])"
proof -
  let ?failure = "PDict [(''success'', PBool False), (''error'', PStr ''httpx: command not found'')]"
  have h1: "0 \<le> max_retries demo_config"
    by (simp add: demo_config_def)
  have h2: "httpx_missing ''example.com'' [] [] = (Inr ?failure, [''httpx''])"
    by (simp add: httpx_missing_def)
  have h3: "\<not> reports_success ?failure"
    by (simp add: dict_get_def)
  have h4: "classify demo_lib ?failure = TOOL_NOT_FOUND"
    by code_simp
  then have h4': "classify demo_lib ?failure = TOOL_NOT_FOUND
                  \<or> classify demo_lib ?failure = INVALID_TARGET"
    by simp
  have fb: "try_fallback demo_env ''httpx'' ''example.com'' [] demo_executors
              \<lparr> ec_error_type = TOOL_NOT_FOUND, ec_tool_name = ''httpx'',
                ec_target = ''example.com'', ec_error_message = error_msg_of ?failure,
                ec_timestamp = time_now demo_env [''httpx''], ec_retry_count = 0,
                ec_suggestions = get_suggestions demo_lib demo_env TOOL_NOT_FOUND ''httpx'' \<rparr>
              [''httpx''] =
            (PDict [(''success'', PBool True), (''status'', PInt 200),
                    (''used_alternative'', PBool True), (''original_tool'', PStr ''httpx''),
                    (''alternative_tool'', PStr ''wget'')],
             [''httpx'', ''wget''])"
    by code_simp
  have en: "enable_fallback demo_config"
    by (simp add: demo_config_def)
  show ?thesis
    using non_retryable_short_circuit [where X = demo_config and executor_func = httpx_missing
        and target = "''example.com''" and params = "[]" and ?w0.0 = "[]" and L = demo_lib
        and E = demo_env and tool_name = "''httpx''" and tool_executors = demo_executors,
        OF h1 h2 h3 h4'] fb en h1 h4
    by simp
qed

text \<open>
  C6 as stated fails for a negative budget: with \<^verbatim>\<open>max_retries = -1\<close> the condition of
  the loop is false from the start, the executor of the missing \<^verbatim>\<open>httpx\<close> is not called
  at all (the log stays empty), no error is recorded, the enabled fallback is not tried
  and the result is the failure result without an error context.
\<close>

theorem negative_budget_never_calls:
  "max_retries negative_budget = - 1
   \<and> enable_fallback negative_budget
   \<and> execute_with_resilience demo_lib demo_env negative_budget ''httpx'' ''example.com'' []
         httpx_missing demo_executors [] =
       (Inr (PDict [(''success'', PBool False), (''tool'', PStr ''httpx''),
                    (''target'', PStr ''example.com''), (''error'', PStr ''Unknown error''),
                    (''suggestions'',
                     PList [PStr ''Review error logs'', PStr ''Check tool installation''])]),
        [])"
  by code_simp


section \<open>Properties of the task scheduler\<close>

text \<open>What the submission loop leaves: the futures of the dispatched tasks and the immediate failures.\<close>

lemma submit_all_futures:
  "snd (submit_all tool_executors tasks (results, futures)) =
     futures @ map (\<lambda>t. (t, submit t (the (tool_executors (st_tool_name t)))))
                   (filter (\<lambda>t. tool_executors (st_tool_name t) \<noteq> None) tasks)"
  by (induction tasks arbitrary: results futures) (auto split: option.splits)

lemma submit_all_keeps:
  "results k \<noteq> None \<Longrightarrow> fst (submit_all tool_executors tasks (results, futures)) k \<noteq> None"
  by (induction tasks arbitrary: results futures) (auto split: option.splits)

lemma submit_all_covers:
  "t \<in> set tasks \<Longrightarrow> tool_executors (st_tool_name t) = None \<Longrightarrow>
     fst (submit_all tool_executors tasks (results, futures)) (st_tool_name t) \<noteq> None"
proof (induction tasks arbitrary: results futures)
  case Nil
  then show ?case by simp
next
  case (Cons a tasks)
  show ?case
  proof (cases "a = t")
    case True
    with Cons.prems(2) show ?thesis
      by (simp add: submit_all_keeps)
  next
    case False
    with Cons.prems have "t \<in> set tasks" by simp
    from Cons.IH [OF this Cons.prems(2)] show ?thesis
      by (simp split: option.splits)
  qed
qed

lemma submit_all_results:
  "fst (submit_all tool_executors tasks (results, futures)) k = Some r \<Longrightarrow>
     results k = Some r \<or>
     (\<exists>t \<in> set tasks. st_tool_name t = k \<and> tool_executors k = None \<and> r = no_executor_result t)"
proof (induction tasks arbitrary: results futures)
  case Nil
  then show ?case by simp
next
  case (Cons a tasks)
  show ?case
  proof (cases "tool_executors (st_tool_name a)")
    case None
    with Cons.prems
    have "fst (submit_all tool_executors tasks
                 (results(st_tool_name a \<mapsto> no_executor_result a), futures)) k = Some r"
      by simp
    from Cons.IH [OF this] None show ?thesis
      by (auto split: if_splits)
  next
    case (Some f)
    with Cons.prems
    have "fst (submit_all tool_executors tasks (results, futures @ [(a, submit a f)])) k = Some r"
      by simp
    from Cons.IH [OF this] show ?thesis by auto
  qed
qed

text \<open>The collecting loop on finished futures, with a callback that returns.\<close>

lemma future_result_finish_submit:
  "future_result (finish (submit task f)) timeout = Got (execute_single_task task f)"
  by (simp add: submit_def)

lemma collect_returning_step:
  assumes "always_returns progress_callback"
  shows "collect progress_callback total_tasks ((task, finish (submit task f)) # tfs)
           (results, completed, calls, c) =
         collect progress_callback total_tasks tfs
           (results(st_tool_name task \<mapsto> execute_single_task task f),
            completed + 1,
            (case progress_callback of
               None \<Rightarrow> calls
             | Some callback \<Rightarrow> calls @ [(completed + 1, total_tasks, st_tool_name task)]),
            (case progress_callback of
               None \<Rightarrow> c
             | Some callback \<Rightarrow> snd (callback (completed + 1) total_tasks (st_tool_name task) c)))"
proof (cases progress_callback)
  case None
  then show ?thesis by (simp add: future_result_finish_submit)
next
  case (Some callback)
  with assms
  have "fst (callback (completed + 1) total_tasks (st_tool_name task) c) = CallbackReturned"
    by simp
  then show ?thesis
    by (cases "callback (completed + 1) total_tasks (st_tool_name task) c")
       (simp add: Some future_result_finish_submit)
qed




lemma collect_step:
  "\<exists>r' n' calls' c'.
     collect progress_callback total_tasks ((task, fut) # tfs) (results, completed, calls, c) =
     collect progress_callback total_tasks tfs (results(st_tool_name task \<mapsto> r'), n', calls', c')"
proof (cases "future_result fut (st_timeout task)")
  case (Got result)
  show ?thesis
  proof (cases progress_callback)
    case None
    with Got show ?thesis by auto
  next
    case (Some callback)
    obtain out c' where call: "callback (completed + 1) total_tasks (st_tool_name task) c = (out, c')"
      by (cases "callback (completed + 1) total_tasks (st_tool_name task) c")
    show ?thesis
      using Got Some call by (cases out) auto
  qed
next
  case FutureTimeoutError
  then show ?thesis by auto
next
  case (OtherException e)
  then show ?thesis by auto
qed

lemma collect_covers:
  "results k \<noteq> None \<or> k \<in> (\<lambda>tf. st_tool_name (fst tf)) ` set tfs \<Longrightarrow>
     fst (collect progress_callback total_tasks tfs (results, completed, calls, c)) k \<noteq> None"
proof (induction tfs arbitrary: results completed calls c)
  case Nil
  then show ?case by simp
next
  case (Cons tf tfs)
  obtain task fut where tf: "tf = (task, fut)" by (cases tf)
  obtain r' n' calls' c' where
    step: "collect progress_callback total_tasks ((task, fut) # tfs) (results, completed, calls, c) =
           collect progress_callback total_tasks tfs
             (results(st_tool_name task \<mapsto> r'), n', calls', c')"
    using collect_step [of progress_callback total_tasks task fut tfs results completed calls c]
    by blast
  have "(results(st_tool_name task \<mapsto> r')) k \<noteq> None
        \<or> k \<in> (\<lambda>tf. st_tool_name (fst tf)) ` set tfs"
    using Cons.prems by (auto simp: tf)
  then have "fst (collect progress_callback total_tasks tfs
                    (results(st_tool_name task \<mapsto> r'), n', calls', c')) k \<noteq> None"
    by (rule Cons.IH)
  then show ?case
    unfolding tf step .
qed

lemma collect_invariant:
  assumes "always_returns progress_callback"
    and "\<forall>tf \<in> set tfs. \<exists>f. snd tf = finish (submit (fst tf) f)
                               \<and> Q (st_tool_name (fst tf)) (execute_single_task (fst tf) f)"
    and "\<forall>k r. results k = Some r \<longrightarrow> Q k r"
    and "fst (collect progress_callback total_tasks tfs (results, completed, calls, c)) k = Some r"
  shows "Q k r"
  using assms(2,3,4)
proof (induction tfs arbitrary: results completed calls c)
  case Nil
  then show ?case by simp
next
  case (Cons tf tfs)
  obtain task fut where tf: "tf = (task, fut)" by (cases tf)
  from Cons.prems(1) obtain f where fut: "fut = finish (submit task f)"
    and q: "Q (st_tool_name task) (execute_single_task task f)"
    by (auto simp: tf)
  have rest: "\<forall>tf \<in> set tfs. \<exists>f. snd tf = finish (submit (fst tf) f)
                               \<and> Q (st_tool_name (fst tf)) (execute_single_task (fst tf) f)"
    using Cons.prems(1) by simp
  let ?results' = "results(st_tool_name task \<mapsto> execute_single_task task f)"
  have inv: "\<forall>k r. ?results' k = Some r \<longrightarrow> Q k r"
    using Cons.prems(2) q by auto
  from Cons.prems(3)
  have step: "fst (collect progress_callback total_tasks tfs
                     (?results', completed + 1,
                      (case progress_callback of
                         None \<Rightarrow> calls
                       | Some callback \<Rightarrow> calls @ [(completed + 1, total_tasks, st_tool_name task)]),
                      (case progress_callback of
                         None \<Rightarrow> c
                       | Some callback \<Rightarrow>
                           snd (callback (completed + 1) total_tasks (st_tool_name task) c)))) k =
              Some r"
    unfolding tf fut collect_returning_step [OF assms(1)] .
  from Cons.IH [OF rest inv step] show ?case .
qed

text \<open>Every submitted future is handed over once.\<close>

lemma as_completed_perm:
  assumes "mset order = mset [0..<length futures]"
  shows "as_completed futures order =
           map (\<lambda>i. (fst (futures ! i), finish (snd (futures ! i)))) order"
proof -
  have "set order = {0..<length futures}"
    using assms by (metis mset_eq_setD set_upt)
  then have "filter (\<lambda>i. i < length futures) order = order"
    by (auto simp: filter_id_conv)
  then show ?thesis by (simp add: as_completed_def)
qed

lemma completion_order_perm:
  "mset (completion_order width futures) = mset [0..<length futures]"
  by (simp add: completion_order_def Let_def)

lemma length_sorted_tasks: "length (sorted_tasks tasks) = length tasks"
  by (simp add: sorted_tasks_def)

lemma submitted_futures:
  "snd (submit_all tool_executors (sorted_tasks tasks) (Map.empty, [])) =
     map (\<lambda>t. (t, submit t (the (tool_executors (st_tool_name t)))))
         (dispatched_tasks tool_executors tasks)"
  by (simp add: submit_all_futures dispatched_tasks_def)

lemma dispatched_has_executor:
  "t \<in> set (dispatched_tasks tool_executors tasks) \<Longrightarrow>
     t \<in> set tasks \<and> (\<exists>f. tool_executors (st_tool_name t) = Some f)"
  by (auto simp: dispatched_tasks_def sorted_tasks_def)

lemma completion_perm:
  "mset (completion P tool_executors tasks) = mset [0..<length (dispatched_tasks tool_executors tasks)]"
  by (simp add: completion_def completion_order_perm)

lemma completion_in_range:
  "i \<in> set (completion P tool_executors tasks) \<Longrightarrow> i < length (dispatched_tasks tool_executors tasks)"
  using completion_perm [of P tool_executors tasks]
  by (metis atLeastLessThan_iff mset_eq_setD set_upt)


lemma completed_futures:
  "as_completed (snd (submit_all tool_executors (sorted_tasks tasks) (Map.empty, [])))
     (completion_order (max_workers P)
        (snd (submit_all tool_executors (sorted_tasks tasks) (Map.empty, [])))) =
   map (\<lambda>i. (dispatched_tasks tool_executors tasks ! i,
              finish (submit (dispatched_tasks tool_executors tasks ! i)
                        (the (tool_executors
                                (st_tool_name (dispatched_tasks tool_executors tasks ! i)))))))
       (completion P tool_executors tasks)"
proof -
  let ?d = "dispatched_tasks tool_executors tasks"
  let ?futures = "snd (submit_all tool_executors (sorted_tasks tasks) (Map.empty, []))"
  have order: "completion_order (max_workers P) ?futures = completion P tool_executors tasks"
    by (simp add: completion_def submitted_futures)
  have len: "length ?futures = length ?d"
    by (simp add: submitted_futures)
  have "as_completed ?futures (completion P tool_executors tasks) =
          map (\<lambda>i. (fst (?futures ! i), finish (snd (?futures ! i)))) (completion P tool_executors tasks)"
    by (intro as_completed_perm) (simp add: len completion_perm)
  also have "\<dots> = map (\<lambda>i. (?d ! i, finish (submit (?d ! i)
                                    (the (tool_executors (st_tool_name (?d ! i)))))))
                       (completion P tool_executors tasks)"
    by (rule map_cong) (simp_all add: submitted_futures completion_in_range)
  finally show ?thesis
    by (simp only: order)
qed

lemma execute_parallel_unfold:
  assumes "tasks \<noteq> []" and "0 < max_workers P"
  shows "execute_parallel P tasks tool_executors progress_callback c =
           Inr (fst (collect progress_callback (int (length tasks))
                       (map (\<lambda>i. (dispatched_tasks tool_executors tasks ! i,
                                  finish (submit (dispatched_tasks tool_executors tasks ! i)
                                            (the (tool_executors
                                                    (st_tool_name
                                                       (dispatched_tasks tool_executors tasks ! i)))))))
                            (completion P tool_executors tasks))
                       (fst (submit_all tool_executors (sorted_tasks tasks) (Map.empty, [])), 0, [], c)),
                fst (snd (snd (collect progress_callback (int (length tasks))
                       (map (\<lambda>i. (dispatched_tasks tool_executors tasks ! i,
                                  finish (submit (dispatched_tasks tool_executors tasks ! i)
                                            (the (tool_executors
                                                    (st_tool_name
                                                       (dispatched_tasks tool_executors tasks ! i)))))))
                            (completion P tool_executors tasks))
                       (fst (submit_all tool_executors (sorted_tasks tasks) (Map.empty, [])), 0, [], c)))),
                snd (snd (snd (collect progress_callback (int (length tasks))
                       (map (\<lambda>i. (dispatched_tasks tool_executors tasks ! i,
                                  finish (submit (dispatched_tasks tool_executors tasks ! i)
                                            (the (tool_executors
                                                    (st_tool_name
                                                       (dispatched_tasks tool_executors tasks ! i)))))))
                            (completion P tool_executors tasks))
                       (fst (submit_all tool_executors (sorted_tasks tasks) (Map.empty, [])), 0, [], c)))))"
  using assms
  by (simp add: execute_parallel_def Let_def completed_futures length_sorted_tasks)


text \<open>Every entry of the returned dictionary is a result the batch itself accounts for.\<close>

lemma execute_parallel_returns:
  assumes "tasks \<noteq> []" and "0 < max_workers P"
  shows "\<exists>results calls c'.
           execute_parallel P tasks tool_executors progress_callback c = Inr (results, calls, c')"
  using assms by (simp add: execute_parallel_def Let_def)

lemma results_are_own_results:
  assumes "tasks \<noteq> []" and "0 < max_workers P"
    and "always_returns progress_callback"
    and "execute_parallel P tasks tool_executors progress_callback c = Inr (results, calls, c')"
    and "results k = Some r"
  shows "own_result tool_executors tasks k r"
proof -
  let ?d = "dispatched_tasks tool_executors tasks"
  let ?order = "completion P tool_executors tasks"
  let ?Q = "own_result tool_executors tasks"
  let ?tfs = "map (\<lambda>i. (?d ! i, finish (submit (?d ! i)
                                 (the (tool_executors (st_tool_name (?d ! i))))))) ?order"
  let ?results0 = "fst (submit_all tool_executors (sorted_tasks tasks) (Map.empty, []))"
  have fin: "\<forall>tf \<in> set ?tfs. \<exists>f. snd tf = finish (submit (fst tf) f)
                               \<and> ?Q (st_tool_name (fst tf)) (execute_single_task (fst tf) f)"
  proof
    fix tf assume "tf \<in> set ?tfs"
    then obtain i where i: "i \<in> set ?order"
      and tf: "tf = (?d ! i, finish (submit (?d ! i) (the (tool_executors (st_tool_name (?d ! i))))))"
      by auto
    have "?d ! i \<in> set ?d" using completion_in_range [OF i] by simp
    from dispatched_has_executor [OF this] obtain f where
      mem: "?d ! i \<in> set tasks" and f: "tool_executors (st_tool_name (?d ! i)) = Some f"
      by blast
    have "?Q (st_tool_name (?d ! i)) (execute_single_task (?d ! i) f)"
      unfolding own_result_def using mem f by auto
    then show "\<exists>f. snd tf = finish (submit (fst tf) f)
                 \<and> ?Q (st_tool_name (fst tf)) (execute_single_task (fst tf) f)"
      using tf f by auto
  qed
  have init: "\<forall>k r. ?results0 k = Some r \<longrightarrow> ?Q k r"
  proof (intro allI impI)
    fix k r assume "?results0 k = Some r"
    from submit_all_results [OF this] show "?Q k r"
      by (auto simp: own_result_def sorted_tasks_def)
  qed
  have "fst (collect progress_callback (int (length tasks)) ?tfs (?results0, 0, [], c)) k = Some r"
    using assms(4,5) unfolding execute_parallel_unfold [OF assms(1,2)] by simp
  from collect_invariant [where Q = ?Q, OF assms(3) fin init this] show ?thesis .
qed

lemma every_task_has_a_result:
  assumes "task \<in> set tasks" and "0 < max_workers P"
    and "execute_parallel P tasks tool_executors progress_callback c = Inr (results, calls, c')"
  shows "results (st_tool_name task) \<noteq> None"
proof -
  let ?d = "dispatched_tasks tool_executors tasks"
  let ?order = "completion P tool_executors tasks"
  let ?tfs = "map (\<lambda>i. (?d ! i, finish (submit (?d ! i)
                                 (the (tool_executors (st_tool_name (?d ! i))))))) ?order"
  let ?results0 = "fst (submit_all tool_executors (sorted_tasks tasks) (Map.empty, []))"
  have ne: "tasks \<noteq> []" using assms(1) by auto
  have set_order: "set ?order = {0..<length ?d}"
    using completion_perm [of P tool_executors tasks] by (metis mset_eq_setD set_upt)
  have "?results0 (st_tool_name task) \<noteq> None
        \<or> st_tool_name task \<in> (\<lambda>tf. st_tool_name (fst tf)) ` set ?tfs"
  proof (cases "tool_executors (st_tool_name task)")
    case None
    have "task \<in> set (sorted_tasks tasks)"
      using assms(1) by (simp add: sorted_tasks_def)
    from submit_all_covers [where tool_executors = tool_executors and results = Map.empty
           and futures = "[]", OF this None]
    show ?thesis by simp
  next
    case (Some f)
    then have "task \<in> set ?d"
      using assms(1) by (simp add: dispatched_tasks_def sorted_tasks_def)
    then obtain i where "i < length ?d" and "?d ! i = task"
      by (auto simp: in_set_conv_nth)
    then have "st_tool_name task \<in> (\<lambda>tf. st_tool_name (fst tf)) ` set ?tfs"
      using set_order by force
    then show ?thesis by simp
  qed
  then have "fst (collect progress_callback (int (length tasks)) ?tfs (?results0, 0, [], c))
               (st_tool_name task) \<noteq> None"
    by (rule collect_covers)
  then show ?thesis
    using assms(3) unfolding execute_parallel_unfold [OF ne assms(2)] by simp
qed

text \<open>
  C2: the code does not do what the claim says. In every batch run on a pool of
  positive width, with no progress callback or one that returns whenever it is called,
  a task that does not share its name with another task and whose executor returns
  after more than the task's timeout is waited for to the end: the entry under its name
  is the result built from the value the executor returned, with the executor's own
  \<^verbatim>\<open>success\<close> and \<^verbatim>\<open>timed_out\<close> and the full running time. The scheduler asks a future for
  its result only after \<^verbatim>\<open>as_completed\<close> has handed it over, that is, after it has
  finished, so \<^verbatim>\<open>future.result(timeout=task.timeout)\<close> answers at once.
\<close>

theorem slow_task_is_waited_for:
  assumes "task \<in> set tasks"
    and "\<forall>t \<in> set tasks. st_tool_name t = st_tool_name task \<longrightarrow> t = task"
    and "tool_executors (st_tool_name task) = Some f"
    and "f (st_target task) (st_params task) = (Inr result, d)"
    and "real_of_int (st_timeout task) < d"
    and "0 < max_workers P"
    and "always_returns progress_callback"
  shows "\<exists>results calls c'.
           execute_parallel P tasks tool_executors progress_callback c = Inr (results, calls, c')
           \<and> results (st_tool_name task) =
               Some \<lparr> sr_tool_name = st_tool_name task,
                      sr_target = st_target task,
                      sr_success = (case result of PDict r \<Rightarrow> dict_get r ''success'' (PBool False)
                                                 | _ \<Rightarrow> PBool False),
                      sr_result = result,
                      sr_execution_time = d,
                      sr_error = None,
                      sr_timed_out = (case result of PDict r \<Rightarrow> dict_get r ''timed_out'' (PBool False)
                                                   | _ \<Rightarrow> PBool False) \<rparr>"
proof -
  have ne: "tasks \<noteq> []" using assms(1) by auto
  obtain results calls c' where
    run: "execute_parallel P tasks tool_executors progress_callback c = Inr (results, calls, c')"
    using execute_parallel_returns [OF ne assms(6), of tool_executors progress_callback c]
    by blast
  obtain r where r: "results (st_tool_name task) = Some r"
    using every_task_has_a_result [OF assms(1,6) run] by blast
  from results_are_own_results [OF ne assms(6,7) run r]
  obtain t where "t \<in> set tasks" and "st_tool_name t = st_tool_name task"
    and "r = execute_single_task t f"
    by (auto simp: own_result_def assms(3))
  with assms(2) have "r = execute_single_task task f" by auto
  then have "results (st_tool_name task) =
               Some \<lparr> sr_tool_name = st_tool_name task,
                      sr_target = st_target task,
                      sr_success = (case result of PDict r \<Rightarrow> dict_get r ''success'' (PBool False)
                                                 | _ \<Rightarrow> PBool False),
                      sr_result = result,
                      sr_execution_time = d,
                      sr_error = None,
                      sr_timed_out = (case result of PDict r \<Rightarrow> dict_get r ''timed_out'' (PBool False)
                                                   | _ \<Rightarrow> PBool False) \<rparr>"
    using r assms(4) by (simp add: execute_single_task_def)
  with run show ?thesis by blast
qed





text \<open>
  The failing input: a scan of five seconds that succeeds, in a task with a timeout of
  one second and without a progress callback, comes back as a success that did not
  time out.
\<close>

theorem slow_task_is_waited_for_witness:
  "real_of_int (st_timeout slow_task) < 5
   \<and> slow_scan (st_target slow_task) (st_params slow_task) = (Inr (PDict [(''success'', PBool True)]), 5)
   \<and> map_sum id (\<lambda>x. fst x ''nmap'')
       (execute_parallel demo_scanner [slow_task, orphan_task, quick_task] demo_task_executors
          (None :: unit progress_callback option) ()) =
       Inr (Some \<lparr> sr_tool_name = ''nmap'', sr_target = ''example.com'', sr_success = PBool True,
                   sr_result = PDict [(''success'', PBool True)], sr_execution_time = 5,
                   sr_error = None, sr_timed_out = PBool False \<rparr>)"
proof -
  have h1: "slow_task \<in> set [slow_task, orphan_task, quick_task]" by simp
  have h2: "\<forall>t \<in> set [slow_task, orphan_task, quick_task].
              st_tool_name t = st_tool_name slow_task \<longrightarrow> t = slow_task"
    by (simp add: slow_task_def orphan_task_def quick_task_def)
  have h3: "demo_task_executors (st_tool_name slow_task) = Some slow_scan"
    by (simp add: demo_task_executors_def slow_task_def)
  have h4: "slow_scan (st_target slow_task) (st_params slow_task) =
              (Inr (PDict [(''success'', PBool True)]), 5)"
    by (simp add: slow_scan_def)
  have h5: "real_of_int (st_timeout slow_task) < 5"
    by (simp add: slow_task_def)
  have h6: "0 < max_workers demo_scanner" by (simp add: demo_scanner_def)
  have h7: "always_returns (None :: unit progress_callback option)" by simp
  from slow_task_is_waited_for
         [where task = slow_task and tasks = "[slow_task, orphan_task, quick_task]"
            and tool_executors = demo_task_executors and f = slow_scan
            and result = "PDict [(''success'', PBool True)]" and d = 5
            and P = demo_scanner and progress_callback = "None :: unit progress_callback option"
            and c = "()", OF h1 h2 h3 h4 h5 h6 h7]
  show ?thesis
    using h4 h5 by (auto simp: slow_task_def dict_get_def)
qed

end
